theory Spec2Isabelle
  imports Complex_Main
begin

section \<open>Python values and errors\<close>

text \<open>
  The embedding follows \<^verbatim>\<open>models/var.py\<close>. Python integers are \<^typ>\<open>int\<close>,
  tuples and lists are HOL lists, and every exception the interpreter can raise in the
  modelled code is a value of \<open>error\<close>; a fallible computation returns \<open>error + 'a\<close>
  with \<open>Inl\<close> for the raised exception.
\<close>

datatype error = IndexError | KeyError | ZeroDivisionError | TypeError | RuntimeError | UnboundLocalError

definition py_index :: "'a list \<Rightarrow> int \<Rightarrow> error + 'a" where
  \<comment> \<open>\<^verbatim>\<open>xs[i]\<close> for \<open>-len(xs) \<le> i < len(xs)\<close>, \<^verbatim>\<open>IndexError\<close> otherwise.\<close>
  "py_index xs i =
     (if 0 \<le> i \<and> i < int (length xs) then Inr (xs ! nat i)
      else if i < 0 \<and> - int (length xs) \<le> i then Inr (xs ! nat (int (length xs) + i))
      else Inl IndexError)"

definition norm_bound :: "int \<Rightarrow> nat \<Rightarrow> nat" where
  \<comment> \<open>How a slice bound is clamped into \<open>0..n\<close>.\<close>
  "norm_bound i n = (if i < 0 then nat (max 0 (i + int n)) else min (nat i) n)"

definition py_slice :: "int \<Rightarrow> int \<Rightarrow> 'a list \<Rightarrow> 'a list" where
  \<comment> \<open>\<^verbatim>\<open>xs[a:b]\<close>: never raises, bounds are clamped.\<close>
  "py_slice a b xs =
     (let n = length xs; lo = norm_bound a n; hi = norm_bound b n
      in take (hi - lo) (drop lo xs))"

definition py_prefix :: "int \<Rightarrow> 'a list \<Rightarrow> 'a list" where
  \<comment> \<open>\<^verbatim>\<open>xs[:b]\<close>\<close>
  "py_prefix b xs = take (norm_bound b (length xs)) xs"

definition py_suffix :: "int \<Rightarrow> 'a list \<Rightarrow> 'a list" where
  \<comment> \<open>\<^verbatim>\<open>xs[a:]\<close>\<close>
  "py_suffix a xs = drop (norm_bound a (length xs)) xs"

section \<open>The scale schedule built by the constructor\<close>

text \<open>
  \<^verbatim>\<open>
  self.patch_nums = patch_nums
  self.L = sum(pn ** 2 for pn in self.patch_nums)
  self.first_l = self.patch_nums[0] ** 2
  self.begin_ends = []
  cur = 0
  for i, pn in enumerate(self.patch_nums):
      self.begin_ends.append((cur, cur+pn ** 2))
      cur += pn ** 2
  self.num_stages_minus_1 = len(self.patch_nums) - 1
  \<close>
\<close>

record schedule =
  patch_nums :: "int list"
  L :: int
  first_l :: int
  begin_ends :: "(int \<times> int) list"
  num_stages_minus_1 :: int

fun begin_ends_loop :: "(int \<times> int) list \<Rightarrow> int \<Rightarrow> int list \<Rightarrow> (int \<times> int) list" where
  "begin_ends_loop be cur [] = be"
| "begin_ends_loop be cur (pn # pns) =
     begin_ends_loop (be @ [(cur, cur + pn ^ 2)]) (cur + pn ^ 2) pns"

definition VAR_init :: "int list \<Rightarrow> error + schedule" where
  "VAR_init pns =
     (case py_index pns 0 of
        Inl e \<Rightarrow> Inl e
      | Inr p0 \<Rightarrow>
          Inr \<lparr> patch_nums = pns,
                L = sum_list (map (\<lambda>pn. pn ^ 2) pns),
                first_l = p0 ^ 2,
                begin_ends = begin_ends_loop [] 0 pns,
                num_stages_minus_1 = int (length pns) - 1 \<rparr>)"

definition default_patch_nums :: "int list" where
  "default_patch_nums = [1, 2, 3, 4, 5, 6, 8, 10, 13, 16]"

definition block_len :: "int \<times> int \<Rightarrow> int" where
  "block_len be = snd be - fst be"


section \<open>Tensors\<close>

text \<open>
  A tensor of shape \<open>(batch, position, channel)\<close> is a list of rows, one per batch item,
  each a list of positions, each a vector of reals. Floating-point numbers are read as
  reals. Operations that only change the memory layout (\<^verbatim>\<open>view\<close>, \<^verbatim>\<open>reshape\<close>,
  \<^verbatim>\<open>transpose\<close>) are functions of the model instance; operations along the batch and
  position axes are list operations. Where a call joins tensors that its caller hands in
  (the draft's token hub and logits hub in the refine calls) the shapes torch refuses
  are errors, see \<open>add_embed\<close> and \<open>cat2_dim1\<close>; between the modules of the model
  itself, whose shapes agree by construction, \<open>map2\<close> is used as it is.
\<close>

type_synonym vec = "real list"
type_synonym tensor = "vec list list"

definition vadd :: "vec \<Rightarrow> vec \<Rightarrow> vec" where
  "vadd u v = map2 (+) u v"

definition add_pos :: "tensor \<Rightarrow> vec list \<Rightarrow> tensor" where
  \<comment> \<open>\<^verbatim>\<open>x + e\<close> for \<open>e\<close> of shape \<open>(1, l, C)\<close>, broadcast over the batch.\<close>
  "add_pos x e = map (\<lambda>row. map2 vadd row e) x"

definition add_embed :: "tensor \<Rightarrow> vec list \<Rightarrow> error + tensor" where
  \<comment> \<open>\<^verbatim>\<open>x + e\<close> for \<open>x\<close> of shape \<open>(B, l, C)\<close> and \<open>e\<close> of shape \<open>(1, p, C)\<close>: along the
      position axis torch stretches an axis of length one and refuses any other pair of
      unequal lengths.\<close>
  "add_embed x e =
     (if list_all (\<lambda>row. length row = length e) x then Inr (add_pos x e)
      else if length e = 1 then Inr (map (map (\<lambda>v. vadd v (hd e))) x)
      else if list_all (\<lambda>row. length row = 1) x then Inr (map (\<lambda>row. map (vadd (hd row)) e) x)
      else Inl RuntimeError)"

definition cat2_dim1 :: "tensor \<Rightarrow> tensor \<Rightarrow> error + tensor" where
  \<comment> \<open>\<^verbatim>\<open>torch.cat([a, b], dim=1)\<close>: the batch sizes have to agree.\<close>
  "cat2_dim1 a b = (if length a = length b then Inr (map2 (@) a b) else Inl RuntimeError)"

definition repeat2 :: "'a list \<Rightarrow> 'a list" where
  \<comment> \<open>\<^verbatim>\<open>x.repeat(2, 1, 1)\<close>\<close>
  "repeat2 x = x @ x"

definition repeat_batch :: "nat \<Rightarrow> 'a list \<Rightarrow> 'a list" where
  \<comment> \<open>\<^verbatim>\<open>x.repeat(n, 1, 1, 1)\<close>\<close>
  "repeat_batch n x = concat (replicate n x)"

definition repeat_interleave :: "nat \<Rightarrow> 'a list \<Rightarrow> 'a list" where
  \<comment> \<open>\<^verbatim>\<open>x.repeat_interleave(repeats=n, dim=0)\<close>\<close>
  "repeat_interleave n x = concat (map (replicate n) x)"

definition mul_scalar :: "real \<Rightarrow> tensor \<Rightarrow> tensor" where
  \<comment> \<open>\<^verbatim>\<open>x.mul(c)\<close>\<close>
  "mul_scalar c x = map (map (map (\<lambda>v. c * v))) x"

definition zeros :: "nat \<Rightarrow> nat \<Rightarrow> nat \<Rightarrow> tensor" where
  "zeros b c n = replicate b (replicate c (replicate n 0))"

definition shape1 :: "'a list list \<Rightarrow> nat" where
  \<comment> \<open>\<^verbatim>\<open>x.shape[1]\<close>; a tensor without rows has lost its second dimension in this model.\<close>
  "shape1 x = (case x of [] \<Rightarrow> 0 | row # _ \<Rightarrow> length row)"

definition slice_pos :: "int \<Rightarrow> int \<Rightarrow> tensor \<Rightarrow> tensor" where
  \<comment> \<open>\<^verbatim>\<open>x[:, a:b]\<close>\<close>
  "slice_pos a b x = map (py_slice a b) x"

fun cat_dim1 :: "tensor list \<Rightarrow> error + tensor" where
  \<comment> \<open>\<^verbatim>\<open>torch.cat(ts, dim=1)\<close>: an empty list of tensors is refused.\<close>
  "cat_dim1 [] = Inl RuntimeError"
| "cat_dim1 (t # ts) = Inr (foldl (map2 (@)) t ts)"

definition idx0 :: "nat list list list \<Rightarrow> error + nat list list" where
  \<comment> \<open>\<^verbatim>\<open>s[:, :, 0]\<close> on the sampler's \<open>(B, l, num_samples)\<close> result.\<close>
  "idx0 s = (if list_all (list_all (\<lambda>c. c \<noteq> [])) s then Inr (map (map hd) s)
             else Inl IndexError)"

definition cfg_combine :: "real \<Rightarrow> nat \<Rightarrow> tensor \<Rightarrow> tensor" where
  \<comment> \<open>\<^verbatim>\<open>(1+t) * logits_BlV[:B] - t * logits_BlV[B:]\<close>\<close>
  "cfg_combine t B logits_BlV =
     map2 (map2 (map2 (\<lambda>c u. (1 + t) * c - t * u))) (take B logits_BlV) (drop B logits_BlV)"

definition denormalize :: "tensor \<Rightarrow> tensor" where
  \<comment> \<open>\<^verbatim>\<open>img.add_(1).mul_(0.5)\<close>\<close>
  "denormalize img = map (map (map (\<lambda>v. (v + 1) * 0.5))) img"

section \<open>The model instance and its mutable state\<close>

text \<open>
  Arguments that are a number or a per-scale sequence (\<^verbatim>\<open>top_k\<close>, \<^verbatim>\<open>temp\<close>) keep
  their dynamic type: subscripting a number or \<^verbatim>\<open>None\<close> raises \<^verbatim>\<open>TypeError\<close>.
\<close>

datatype 'a param = Unset | Scalar 'a | PerScale "'a list"

definition subscript :: "'a param \<Rightarrow> int \<Rightarrow> error + 'a" where
  "subscript p i = (case p of PerScale xs \<Rightarrow> py_index xs i | _ \<Rightarrow> Inl TypeError)"

datatype label = LabelNone | LabelInt int | LabelTensor "int list"

type_synonym gen = nat

text \<open>
  The fields after the schedule are the learned modules and the external collaborators
  (codec, decoder, sampler helpers, \<^verbatim>\<open>torch\<close> random number generation), each a function.
  A generator's state is a \<open>gen\<close>; a sampling function takes the state and returns the
  next one. \<open>attn_has_k_cache\<close> says whether the attention class has the attributes
  \<^verbatim>\<open>k_cache\<close> and \<^verbatim>\<open>v_cache\<close> that the beam-search call probes with \<^verbatim>\<open>hasattr\<close>.
\<close>

record var_model = schedule +
  Cvae :: nat
  num_classes :: int
  cond_drop_rate :: real
  class_emb :: "int list \<Rightarrow> vec list"
  pos_start :: "vec list"
  pos_1LC :: "vec list"
  lvl_embed :: "int \<Rightarrow> vec"
  word_embed :: "tensor \<Rightarrow> tensor"
  shared_ada_lin :: "vec list \<Rightarrow> vec list"
  block_fn :: "nat \<Rightarrow> tensor list \<Rightarrow> tensor \<Rightarrow> vec list \<Rightarrow> bool list list option \<Rightarrow> tensor"
  head_nm :: "tensor \<Rightarrow> vec list \<Rightarrow> tensor"
  head :: "tensor \<Rightarrow> tensor"
  quant_embedding :: "nat list list \<Rightarrow> tensor"
  codebook_matmul :: "tensor \<Rightarrow> tensor"
  get_next_autoregressive_input :: "nat \<Rightarrow> nat \<Rightarrow> tensor \<Rightarrow> tensor \<Rightarrow> tensor \<times> tensor"
  get_next_autoregressive_input_inpaint ::
    "nat \<Rightarrow> nat \<Rightarrow> tensor \<Rightarrow> tensor \<Rightarrow> tensor list \<Rightarrow> tensor \<Rightarrow> tensor \<Rightarrow> tensor \<times> tensor"
  fhat_to_img :: "tensor \<Rightarrow> tensor"
  interpolate_nearest :: "tensor \<Rightarrow> int \<Rightarrow> tensor"
  to_BChw :: "nat \<Rightarrow> int \<Rightarrow> tensor \<Rightarrow> tensor"
  to_BlC :: "nat \<Rightarrow> tensor \<Rightarrow> tensor"
  manual_seed :: "int \<Rightarrow> gen"
  multinomial :: "gen \<Rightarrow> int \<Rightarrow> nat \<Rightarrow> int list \<times> gen"
  rand :: "gen \<Rightarrow> nat \<Rightarrow> real list \<times> gen"
  sample_with_top_k_top_p ::
    "gen \<Rightarrow> tensor \<Rightarrow> int param \<Rightarrow> real \<Rightarrow> nat \<Rightarrow> real param \<Rightarrow> nat list list list \<times> gen"
  gumbel_softmax_with_rng :: "gen \<Rightarrow> tensor \<Rightarrow> real \<Rightarrow> tensor \<times> gen"
  attn_has_k_cache :: bool

text \<open>
  Modelled from the spec: the attention module of a backbone block
  (\<^verbatim>\<open>models/basic_var.py\<close> is not among the sources). The spec gives each block a toggle
  \<^verbatim>\<open>kv_caching(bool)\<close> and an operation \<^verbatim>\<open>reset_cache()\<close>; enabling switches the block
  into append mode, disabling clears all cached state, and with caching enabled a forward
  call appends the current step and attends over everything cached so far.
\<close>

record attn =
  caching :: bool
  cached :: "tensor list"

definition kv_caching :: "bool \<Rightarrow> attn \<Rightarrow> attn" where
  "kv_caching enable a =
     (if enable then a\<lparr>caching := True\<rparr> else a\<lparr>caching := False, cached := []\<rparr>)"

definition reset_cache :: "attn \<Rightarrow> attn" where
  "reset_cache a = a\<lparr>cached := []\<rparr>"

definition block_forward ::
  "var_model \<Rightarrow> nat \<Rightarrow> attn \<Rightarrow> tensor \<Rightarrow> vec list \<Rightarrow> bool list list option \<Rightarrow> tensor \<times> attn" where
  "block_forward m i a x cond attn_bias =
     (if caching a then (block_fn m i (cached a) x cond attn_bias, a\<lparr>cached := cached a @ [x]\<rparr>)
      else (block_fn m i [] x cond attn_bias, a))"

text \<open>
  The state a call can change: the blocks' caches, the generator of the model instance
  (\<^verbatim>\<open>self.rng\<close>) and the process-wide default generator that torch uses when a sampling
  function is given \<^verbatim>\<open>generator=None\<close>.
\<close>

record var_state =
  blocks :: "attn list"
  rng :: gen
  default_rng :: gen

datatype gen_ref = RngNone | SelfRng

definition draw :: "gen_ref \<Rightarrow> (gen \<Rightarrow> 'a \<times> gen) \<Rightarrow> var_state \<Rightarrow> 'a \<times> var_state" where
  "draw r f st =
     (case r of
        RngNone \<Rightarrow> (let (v, g) = f (default_rng st) in (v, st\<lparr>default_rng := g\<rparr>))
      | SelfRng \<Rightarrow> (let (v, g) = f (rng st) in (v, st\<lparr>rng := g\<rparr>)))"

definition set_kv_caching :: "bool \<Rightarrow> var_state \<Rightarrow> var_state" where
  \<comment> \<open>\<^verbatim>\<open>for b in self.blocks: b.attn.kv_caching(enable)\<close>\<close>
  "set_kv_caching enable st = st\<lparr>blocks := map (kv_caching enable) (blocks st)\<rparr>"

fun run_blocks ::
  "var_model \<Rightarrow> nat \<Rightarrow> attn list \<Rightarrow> tensor \<Rightarrow> vec list \<Rightarrow> bool list list option \<Rightarrow> tensor \<times> attn list" where
  "run_blocks m i [] x cond attn_bias = (x, [])"
| "run_blocks m i (a # as) x cond attn_bias =
     (let (y, a') = block_forward m i a x cond attn_bias;
          (z, as') = run_blocks m (Suc i) as y cond attn_bias
      in (z, a' # as'))"

definition forward_blocks ::
  "var_model \<Rightarrow> tensor \<Rightarrow> vec list \<Rightarrow> bool list list option \<Rightarrow> var_state \<Rightarrow> tensor \<times> var_state" where
  \<comment> \<open>\<^verbatim>\<open>for b in self.blocks: x = b(x=x, cond_BD=cond_BD_or_gss, attn_bias=attn_bias)\<close>\<close>
  "forward_blocks m x cond attn_bias st =
     (let (y, bs) = run_blocks m 0 (blocks st) x cond attn_bias in (y, st\<lparr>blocks := bs\<rparr>))"

definition get_logits :: "var_model \<Rightarrow> tensor \<Rightarrow> vec list \<Rightarrow> tensor" where
  \<comment> \<open>\<^verbatim>\<open>self.head(self.head_nm(h.float(), cond_BD).float()).float()\<close>, \<open>h\<close> a tensor.\<close>
  "get_logits m h cond_BD = head m (head_nm m h cond_BD)"

section \<open>Steps shared by the generation calls\<close>

definition lvl_1L :: "int list \<Rightarrow> int list" where
  \<comment> \<open>\<^verbatim>\<open>torch.cat([torch.full((pn*pn,), i) for i, pn in enumerate(self.patch_nums)])\<close>\<close>
  "lvl_1L pns = concat (map (\<lambda>(i, pn). replicate (nat (pn * pn)) (int i)) (enumerate 0 pns))"

definition attn_bias_for_masking :: "int list \<Rightarrow> bool list list" where
  \<comment> \<open>\<^verbatim>\<open>torch.where(d >= dT, 0., -torch.inf)\<close>: \<open>True\<close> is \<open>0.\<close> (may attend).\<close>
  "attn_bias_for_masking pns = (let d = lvl_1L pns in map (\<lambda>di. map (\<lambda>dj. dj \<le> di) d) d)"

definition attn_bias_upto :: "int list \<Rightarrow> int \<Rightarrow> bool list list" where
  \<comment> \<open>\<^verbatim>\<open>self.attn_bias_for_masking[:, :, 0:n, 0:n]\<close>\<close>
  "attn_bias_upto pns n = map (py_slice 0 n) (py_slice 0 n (attn_bias_for_masking pns))"

definition lvl_pos_of :: "var_model \<Rightarrow> vec list" where
  \<comment> \<open>\<^verbatim>\<open>self.lvl_embed(self.lvl_1L) + self.pos_1LC\<close>\<close>
  "lvl_pos_of m = map2 vadd (map (lvl_embed m) (lvl_1L (patch_nums m))) (pos_1LC m)"

definition seed_generator :: "var_model \<Rightarrow> int option \<Rightarrow> var_state \<Rightarrow> gen_ref \<times> var_state" where
  \<comment> \<open>\<^verbatim>\<open>if g_seed is None: rng = None\<close>, \<^verbatim>\<open>else: self.rng.manual_seed(g_seed); rng = self.rng\<close>\<close>
  "seed_generator m g_seed st =
     (case g_seed of
        None \<Rightarrow> (RngNone, st)
      | Some g \<Rightarrow> (SelfRng, st\<lparr>rng := manual_seed m g\<rparr>))"

definition resolve_label ::
  "var_model \<Rightarrow> nat \<Rightarrow> label \<Rightarrow> gen_ref \<Rightarrow> var_state \<Rightarrow> int list \<times> var_state" where
  "resolve_label m B label_B r st =
     (case label_B of
        LabelNone \<Rightarrow> draw r (\<lambda>g. multinomial m g (num_classes m) B) st
      | LabelInt l \<Rightarrow> (replicate B (if l < 0 then num_classes m else l), st)
      | LabelTensor ls \<Rightarrow> (ls, st))"

definition class_cond :: "var_model \<Rightarrow> int list \<Rightarrow> vec list" where
  \<comment> \<open>\<^verbatim>\<open>self.class_emb(torch.cat((label_B, torch.full_like(label_B, self.num_classes))))\<close>\<close>
  "class_cond m label_B = class_emb m (label_B @ replicate (length label_B) (num_classes m))"

definition first_token_map :: "var_model \<Rightarrow> vec list \<Rightarrow> vec list \<Rightarrow> tensor" where
  \<comment> \<open>\<^verbatim>\<open>sos.unsqueeze(1).expand(2*B, first_l, -1) + pos_start.expand(2*B, first_l, -1) + lvl_pos[:, :first_l]\<close>\<close>
  "first_token_map m sos lvl_pos =
     map (\<lambda>s. map2 (\<lambda>p e. vadd (vadd s p) e) (pos_start m) (py_prefix (first_l m) lvl_pos)) sos"

definition ratio_of :: "var_model \<Rightarrow> nat \<Rightarrow> error + real" where
  \<comment> \<open>\<^verbatim>\<open>si / self.num_stages_minus_1\<close>: true division of two integers.\<close>
  "ratio_of m si =
     (if num_stages_minus_1 m = 0 then Inl ZeroDivisionError
      else Inr (real si / real_of_int (num_stages_minus_1 m)))"

definition sample_idx ::
  "var_model \<Rightarrow> gen_ref \<Rightarrow> tensor \<Rightarrow> int param \<Rightarrow> real \<Rightarrow> real param \<Rightarrow> var_state
     \<Rightarrow> (error + nat list list) \<times> var_state" where
  \<comment> \<open>\<^verbatim>\<open>sample_with_top_k_top_p_(logits, rng=rng, top_k=.., top_p=.., num_samples=1, temp=..)[:, :, 0]\<close>\<close>
  "sample_idx m r logits top_k top_p temp st =
     (let (s, st') = draw r (\<lambda>g. sample_with_top_k_top_p m g logits top_k top_p 1 temp) st
      in (idx0 s, st'))"

definition make_h ::
  "var_model \<Rightarrow> gen_ref \<Rightarrow> bool \<Rightarrow> real \<Rightarrow> tensor \<Rightarrow> nat list list \<Rightarrow> var_state
     \<Rightarrow> tensor \<times> var_state" where
  "make_h m r more_smooth ratio logits idx_Bl st =
     (if \<not> more_smooth then (quant_embedding m idx_Bl, st)
      else
        (let gum_t = max (0.27 * (1 - ratio * 0.95)) 0.005;
             (g, st') = draw r (\<lambda>gs. gumbel_softmax_with_rng m gs (mul_scalar (1 + ratio) logits) gum_t) st
         in (codebook_matmul m g, st')))"

definition embed_next :: "var_model \<Rightarrow> vec list \<Rightarrow> int \<Rightarrow> nat \<Rightarrow> tensor \<Rightarrow> error + tensor" where
  \<comment> \<open>\<^verbatim>\<open>self.word_embed(next_token_map) + lvl_pos[:, cur_L:cur_L + self.patch_nums[si+1] ** 2]\<close>,
      then \<^verbatim>\<open>.repeat(2, 1, 1)\<close>\<close>
  "embed_next m lvl_pos cL si tok =
     (case py_index (patch_nums m) (int si + 1) of
        Inl e \<Rightarrow> Inl e
      | Inr pn1 \<Rightarrow> Inr (repeat2 (add_pos (word_embed m tok) (py_slice cL (cL + pn1 ^ 2) lvl_pos))))"

datatype 'a ctl = Next 'a | Break 'a

fun for_enumerate ::
  "(nat \<Rightarrow> int \<Rightarrow> 'a \<Rightarrow> var_state \<Rightarrow> (error + 'a ctl) \<times> var_state) \<Rightarrow> nat \<Rightarrow> int list \<Rightarrow> 'a \<Rightarrow> var_state
     \<Rightarrow> (error + 'a) \<times> var_state" where
  \<comment> \<open>\<^verbatim>\<open>for si, pn in enumerate(self.patch_nums)\<close> from index \<open>si\<close> on; an exception or a
      \<^verbatim>\<open>break\<close> ends the loop.\<close>
  "for_enumerate body si [] lv st = (Inr lv, st)"
| "for_enumerate body si (pn # pns) lv st =
     (case body si pn lv st of
        (Inl e, st') \<Rightarrow> (Inl e, st')
      | (Inr (Break lv'), st') \<Rightarrow> (Inr lv', st')
      | (Inr (Next lv'), st') \<Rightarrow> for_enumerate body (Suc si) pns lv' st')"

record ar_locals =
  cur_L :: int
  f_hat :: tensor
  next_token_map :: tensor
  token_hub :: "tensor list"
  logits_hub :: "tensor list"

definition advance_scale ::
  "var_model \<Rightarrow> (nat \<Rightarrow> nat \<Rightarrow> tensor \<Rightarrow> tensor \<Rightarrow> tensor \<times> tensor) \<Rightarrow> nat \<Rightarrow> bool \<Rightarrow> gen_ref \<Rightarrow> vec list
     \<Rightarrow> nat \<Rightarrow> int \<Rightarrow> int \<Rightarrow> real \<Rightarrow> tensor \<Rightarrow> nat list list \<Rightarrow> ar_locals \<Rightarrow> var_state
     \<Rightarrow> (error + ar_locals ctl) \<times> var_state" where
  \<comment> \<open>The end of a loop body, from \<^verbatim>\<open>if not more_smooth\<close> on: the sampled tokens are
      embedded, the codec \<open>codec\<close> adds them to the canvas and returns the next scale's
      token map, which is prepared as the next input unless this was the last scale.\<close>
  "advance_scale m codec B more_smooth r lvl_pos si pn cL ratio logits_BlV idx_Bl lv st2 =
     (let (h, st3) = make_h m r more_smooth ratio logits_BlV idx_Bl st2;
          (fh, nxt) = codec si (length (patch_nums m)) (f_hat lv) (to_BChw m B pn h)
      in if int si \<noteq> num_stages_minus_1 m then
           (case embed_next m lvl_pos cL si (to_BlC m B nxt) of
              Inl e \<Rightarrow> (Inl e, st3)
            | Inr nm \<Rightarrow>
                (Inr (Next (lv\<lparr>cur_L := cL, f_hat := fh, next_token_map := nm\<rparr>)), st3))
         else (Inr (Next (lv\<lparr>cur_L := cL, f_hat := fh, next_token_map := nxt\<rparr>)), st3))"

section \<open>autoregressive\_infer\_cfg\<close>

definition infer_cfg_body ::
  "var_model \<Rightarrow> nat \<Rightarrow> real \<Rightarrow> int param \<Rightarrow> real \<Rightarrow> bool \<Rightarrow> gen_ref \<Rightarrow> vec list \<Rightarrow> vec list \<Rightarrow> vec list
     \<Rightarrow> nat \<Rightarrow> int \<Rightarrow> ar_locals \<Rightarrow> var_state \<Rightarrow> (error + ar_locals ctl) \<times> var_state" where
  "infer_cfg_body m B cfg top_k top_p more_smooth r cond_BD cond_BD_or_gss lvl_pos si pn lv st =
     (case ratio_of m si of
        Inl e \<Rightarrow> (Inl e, st)
      | Inr ratio \<Rightarrow>
          (let cL = cur_L lv + pn * pn;
               (x, st1) = forward_blocks m (next_token_map lv) cond_BD_or_gss None st;
               logits_BlV = cfg_combine (cfg * ratio) B (get_logits m x cond_BD)
           in case sample_idx m r logits_BlV top_k top_p Unset st1 of
                (Inl e, st2) \<Rightarrow> (Inl e, st2)
              | (Inr idx_Bl, st2) \<Rightarrow>
                  (let (h, st3) = make_h m r more_smooth ratio logits_BlV idx_Bl st2;
                       (fh, nxt) = get_next_autoregressive_input m si (length (patch_nums m))
                                     (f_hat lv) (to_BChw m B pn h)
                   in if int si \<noteq> num_stages_minus_1 m then
                        (case embed_next m lvl_pos cL si (to_BlC m B nxt) of
                           Inl e \<Rightarrow> (Inl e, st3)
                         | Inr nm \<Rightarrow>
                             (Inr (Next (lv\<lparr>cur_L := cL, f_hat := fh, next_token_map := nm\<rparr>)), st3))
                      else (Inr (Next (lv\<lparr>cur_L := cL, f_hat := fh, next_token_map := nxt\<rparr>)), st3))))"

definition autoregressive_infer_cfg ::
  "var_model \<Rightarrow> nat \<Rightarrow> label \<Rightarrow> int option \<Rightarrow> real \<Rightarrow> int param \<Rightarrow> real \<Rightarrow> bool \<Rightarrow> var_state
     \<Rightarrow> (error + tensor) \<times> var_state" where
  "autoregressive_infer_cfg m B label_B g_seed cfg top_k top_p more_smooth st =
     (let (r, st0) = seed_generator m g_seed st;
          (labels, st1) = resolve_label m B label_B r st0;
          cond_BD = class_cond m labels;
          lvl_pos = lvl_pos_of m;
          ntm = first_token_map m cond_BD lvl_pos
      in case py_index (patch_nums m) (- 1) of
           Inl e \<Rightarrow> (Inl e, st1)
         | Inr pl \<Rightarrow>
             (let fh = zeros B (Cvae m) (nat (pl * pl));
                  cond_BD_or_gss = shared_ada_lin m cond_BD;
                  st2 = set_kv_caching True st1
              in case for_enumerate
                        (infer_cfg_body m B cfg top_k top_p more_smooth r cond_BD cond_BD_or_gss lvl_pos)
                        0 (patch_nums m)
                        \<lparr>cur_L = 0, f_hat = fh, next_token_map = ntm, token_hub = [], logits_hub = []\<rparr> st2 of
                   (Inl e, st3) \<Rightarrow> (Inl e, st3)
                 | (Inr lv, st3) \<Rightarrow>
                     (Inr (denormalize (fhat_to_img m (f_hat lv))), set_kv_caching False st3)))"

section \<open>The draft calls\<close>

text \<open>
  \<^verbatim>\<open>autoregressive_infer_cfg_draft\<close> and \<^verbatim>\<open>autoregressive_inpaint_draft\<close> share their loop
  body up to the codec function they call and to the logits hub, which only the
  inpainting draft keeps. \<open>codec\<close> is the codec call with its extra arguments applied.
\<close>

definition draft_body ::
  "var_model \<Rightarrow> (nat \<Rightarrow> nat \<Rightarrow> tensor \<Rightarrow> tensor \<Rightarrow> tensor \<times> tensor) \<Rightarrow> bool \<Rightarrow> nat \<Rightarrow> real \<Rightarrow> int param \<Rightarrow> real
     \<Rightarrow> bool \<Rightarrow> int \<Rightarrow> real param \<Rightarrow> gen_ref \<Rightarrow> vec list \<Rightarrow> vec list \<Rightarrow> vec list
     \<Rightarrow> nat \<Rightarrow> int \<Rightarrow> ar_locals \<Rightarrow> var_state \<Rightarrow> (error + ar_locals ctl) \<times> var_state" where
  "draft_body m codec keep_logits B cfg top_k top_p more_smooth exit_num temp r cond_BD cond_BD_or_gss
      lvl_pos si pn lv st =
     (if int si = exit_num then (Inr (Break lv), st)
      else
        case ratio_of m si of
          Inl e \<Rightarrow> (Inl e, st)
        | Inr ratio \<Rightarrow>
            (let cL = cur_L lv + pn * pn;
                 (x, st1) = forward_blocks m (next_token_map lv) cond_BD_or_gss None st;
                 logits_BlV = cfg_combine (cfg * ratio) B (get_logits m x cond_BD);
                 hub = (if keep_logits then logits_hub lv @ [logits_BlV] else logits_hub lv)
             in case subscript top_k (int si) of
                  Inl e \<Rightarrow> (Inl e, st1)
                | Inr k \<Rightarrow>
                   (case subscript temp (int si) of
                      Inl e \<Rightarrow> (Inl e, st1)
                    | Inr tp \<Rightarrow>
                       (case sample_idx m r logits_BlV (Scalar k) top_p (Scalar tp) st1 of
                          (Inl e, st2) \<Rightarrow> (Inl e, st2)
                        | (Inr idx_Bl, st2) \<Rightarrow>
                            (let (h, st3) = make_h m r more_smooth ratio logits_BlV idx_Bl st2;
                                 (fh, nxt) = codec si (length (patch_nums m)) (f_hat lv) (to_BChw m B pn h);
                                 tok = to_BlC m B nxt
                             in case embed_next m lvl_pos cL si tok of
                                  Inl e \<Rightarrow> (Inl e, st3)
                                | Inr nm \<Rightarrow>
                                    (Inr (Next (lv\<lparr>cur_L := cL, f_hat := fh, next_token_map := nm,
                                                   token_hub := token_hub lv @ [tok],
                                                   logits_hub := hub\<rparr>)), st3))))))"

definition autoregressive_infer_cfg_draft ::
  "var_model \<Rightarrow> nat \<Rightarrow> label \<Rightarrow> int option \<Rightarrow> real \<Rightarrow> int param \<Rightarrow> real \<Rightarrow> bool \<Rightarrow> int \<Rightarrow> real param
     \<Rightarrow> var_state \<Rightarrow> (error + tensor \<times> tensor) \<times> var_state" where
  "autoregressive_infer_cfg_draft m B label_B g_seed cfg top_k top_p more_smooth exit_num temp st =
     (let (r, st0) = seed_generator m g_seed st;
          (labels, st1) = resolve_label m B label_B r st0;
          cond_BD = class_cond m labels;
          lvl_pos = lvl_pos_of m;
          ntm = first_token_map m cond_BD lvl_pos
      in case py_index (patch_nums m) (- 1) of
           Inl e \<Rightarrow> (Inl e, st1)
         | Inr pl \<Rightarrow>
             (let fh = zeros B (Cvae m) (nat (pl * pl));
                  cond_BD_or_gss = shared_ada_lin m cond_BD;
                  st2 = set_kv_caching True st1
              in case for_enumerate
                        (draft_body m (get_next_autoregressive_input m) False B cfg top_k top_p more_smooth
                           exit_num temp r cond_BD cond_BD_or_gss lvl_pos)
                        0 (patch_nums m)
                        \<lparr>cur_L = 0, f_hat = fh, next_token_map = ntm, token_hub = [], logits_hub = []\<rparr> st2 of
                   (Inl e, st3) \<Rightarrow> (Inl e, st3)
                 | (Inr lv, st3) \<Rightarrow>
                     (case cat_dim1 (token_hub lv) of
                        Inl e \<Rightarrow> (Inl e, st3)
                      | Inr th \<Rightarrow> (Inr (f_hat lv, th), set_kv_caching False st3))))"

definition autoregressive_inpaint_draft ::
  "var_model \<Rightarrow> nat \<Rightarrow> label \<Rightarrow> int option \<Rightarrow> real \<Rightarrow> int param \<Rightarrow> real \<Rightarrow> bool \<Rightarrow> int
     \<Rightarrow> tensor list \<Rightarrow> tensor \<Rightarrow> tensor \<Rightarrow> real param
     \<Rightarrow> var_state \<Rightarrow> (error + tensor \<times> tensor \<times> tensor) \<times> var_state" where
  "autoregressive_inpaint_draft m B label_B g_seed cfg top_k top_p more_smooth exit_num f_hats mask_in
      mask_out temp st =
     (let (r, st0) = seed_generator m g_seed st;
          (labels, st1) = resolve_label m B label_B r st0;
          cond_BD = class_cond m labels;
          lvl_pos = lvl_pos_of m;
          ntm = first_token_map m cond_BD lvl_pos
      in case py_index (patch_nums m) (- 1) of
           Inl e \<Rightarrow> (Inl e, st1)
         | Inr pl \<Rightarrow>
             (let fh = zeros B (Cvae m) (nat (pl * pl));
                  cond_BD_or_gss = shared_ada_lin m cond_BD;
                  mask_in' = interpolate_nearest m mask_in pl;
                  mask_out' = interpolate_nearest m mask_out pl;
                  st2 = set_kv_caching True st1
              in case for_enumerate
                        (draft_body m
                           (\<lambda>si sn f h. get_next_autoregressive_input_inpaint m si sn f h f_hats mask_in' mask_out')
                           True B cfg top_k top_p more_smooth exit_num temp r cond_BD cond_BD_or_gss lvl_pos)
                        0 (patch_nums m)
                        \<lparr>cur_L = 0, f_hat = fh, next_token_map = ntm, token_hub = [], logits_hub = []\<rparr> st2 of
                   (Inl e, st3) \<Rightarrow> (Inl e, st3)
                 | (Inr lv, st3) \<Rightarrow>
                     (case cat_dim1 (token_hub lv) of
                        Inl e \<Rightarrow> (Inl e, st3)
                      | Inr th \<Rightarrow>
                         (case cat_dim1 (logits_hub lv) of
                            Inl e \<Rightarrow> (Inl e, st3)
                          | Inr lh \<Rightarrow> (Inr (f_hat lv, th, lh), set_kv_caching False st3)))))"

section \<open>The refine calls\<close>

definition exit_points :: "int list" where
  "exit_points = [1, 5, 14, 30, 55, 91, 155, 255, 424, 680]"

definition pindex_of :: "int \<Rightarrow> error + int" where
  \<comment> \<open>\<^verbatim>\<open>pindex = exit_points[entry_num]\<close>\<close>
  "pindex_of entry_num = py_index exit_points entry_num"

definition assign_slice :: "nat \<Rightarrow> int \<Rightarrow> int \<Rightarrow> tensor \<Rightarrow> tensor \<Rightarrow> tensor" where
  \<comment> \<open>\<^verbatim>\<open>x[:B, a:b] = v\<close>: the other rows and positions keep their values.\<close>
  "assign_slice B a b x v =
     map2 (\<lambda>row nv. py_prefix a row @ nv @ py_suffix b row) (take B x) v @ drop B x"

fun resample ::
  "var_model \<Rightarrow> gen_ref \<Rightarrow> nat \<Rightarrow> tensor \<Rightarrow> int param \<Rightarrow> real \<Rightarrow> real param \<Rightarrow> nat \<Rightarrow> int \<Rightarrow> int list
     \<Rightarrow> nat list list option \<Rightarrow> var_state \<Rightarrow> (error + nat list list option) \<times> var_state" where
  \<comment> \<open>\<^verbatim>\<open>for a, b in enumerate(self.patch_nums[0:entry_num+1])\<close>: every pass assigns
      \<^verbatim>\<open>idx_Bl\<close> anew, so the value after the loop is the last pass's.\<close>
  "resample m r B logits_BlV top_k top_p temp a new_L [] idx_Bl st = (Inr idx_Bl, st)"
| "resample m r B logits_BlV top_k top_p temp a new_L (b # bs) idx_Bl st =
     (case py_index (patch_nums m) (int a) of
        Inl e \<Rightarrow> (Inl e, st)
      | Inr pa \<Rightarrow>
         (case subscript top_k (int a) of
            Inl e \<Rightarrow> (Inl e, st)
          | Inr k \<Rightarrow>
             (case subscript temp (int a) of
                Inl e \<Rightarrow> (Inl e, st)
              | Inr tp \<Rightarrow>
                 (case sample_idx m r (slice_pos new_L (new_L + pa ^ 2) (take B logits_BlV))
                         (Scalar k) top_p (Scalar tp) st of
                    (Inl e, st') \<Rightarrow> (Inl e, st')
                  | (Inr i, st') \<Rightarrow>
                      resample m r B logits_BlV top_k top_p temp (Suc a) (new_L + b * b) bs (Some i) st'))))"

definition cfg_entry_logits :: "real \<Rightarrow> nat \<Rightarrow> int \<Rightarrow> int \<Rightarrow> tensor \<Rightarrow> tensor" where
  \<comment> \<open>\<^verbatim>\<open>autoregressive_infer_cfg_refine\<close>:
      \<^verbatim>\<open>logits_BlV[:B,cur_L-pn*pn:cur_L] = (1+t) * logits_BlV[:B,cur_L-pn*pn:cur_L] - t * logits_BlV[B:,cur_L-pn*pn:cur_L]\<close>\<close>
  "cfg_entry_logits t B lo hi logits_BlV =
     assign_slice B lo hi logits_BlV (cfg_combine t B (slice_pos lo hi logits_BlV))"

definition inpaint_entry_logits :: "real \<Rightarrow> nat \<Rightarrow> int \<Rightarrow> int \<Rightarrow> tensor \<Rightarrow> tensor \<Rightarrow> error + tensor" where
  \<comment> \<open>\<^verbatim>\<open>autoregressive_inpaint_refine\<close>: the combination of the slice, then
      \<^verbatim>\<open>torch.cat([logits_hub, logits_BlV], dim=1)\<close>\<close>
  "inpaint_entry_logits t B lo hi hub logits_BlV =
     cat2_dim1 hub (cfg_combine t B (slice_pos lo hi logits_BlV))"

datatype refine_variant = CfgRefine | InpaintRefine tensor

definition refine_entry ::
  "var_model \<Rightarrow> refine_variant \<Rightarrow> nat \<Rightarrow> real \<Rightarrow> int param \<Rightarrow> real \<Rightarrow> real param \<Rightarrow> gen_ref \<Rightarrow> int
     \<Rightarrow> nat \<Rightarrow> int \<Rightarrow> int \<Rightarrow> tensor \<Rightarrow> var_state \<Rightarrow> (error + real \<times> tensor \<times> nat list list) \<times> var_state" where
  \<comment> \<open>The branch \<^verbatim>\<open>if si == entry_num\<close> after \<^verbatim>\<open>get_logits\<close>.\<close>
  "refine_entry m variant B cfg top_k top_p temp r entry_num si pn cL raw st =
     (case ratio_of m si of
        Inl e \<Rightarrow> (Inl e, st)
      | Inr ratio \<Rightarrow>
         (let t = cfg * ratio
          in case (case variant of
                     CfgRefine \<Rightarrow> Inr (cfg_entry_logits t B (cL - pn * pn) cL raw)
                   | InpaintRefine hub \<Rightarrow> inpaint_entry_logits t B (cL - pn * pn) cL hub raw) of
               Inl e \<Rightarrow> (Inl e, st)
             | Inr logits_BlV \<Rightarrow>
                (case resample m r B logits_BlV top_k top_p temp 0 0
                        (py_slice 0 (entry_num + 1) (patch_nums m)) None st of
                   (Inl e, st') \<Rightarrow> (Inl e, st')
                 | (Inr None, st') \<Rightarrow> (Inl UnboundLocalError, st')
                 | (Inr (Some idx_Bl), st') \<Rightarrow>
                     (Inr (ratio,
                           (case variant of
                              CfgRefine \<Rightarrow> slice_pos (cL - pn * pn) cL (take B logits_BlV)
                            | InpaintRefine hub \<Rightarrow> logits_BlV),
                           idx_Bl), st'))))"

definition refine_later ::
  "var_model \<Rightarrow> nat \<Rightarrow> real \<Rightarrow> int param \<Rightarrow> real \<Rightarrow> real param \<Rightarrow> gen_ref \<Rightarrow> nat \<Rightarrow> tensor \<Rightarrow> var_state
     \<Rightarrow> (error + real \<times> tensor \<times> nat list list) \<times> var_state" where
  \<comment> \<open>The branch \<^verbatim>\<open>elif si > entry_num\<close> after \<^verbatim>\<open>get_logits\<close>.\<close>
  "refine_later m B cfg top_k top_p temp r si raw st =
     (case ratio_of m si of
        Inl e \<Rightarrow> (Inl e, st)
      | Inr ratio \<Rightarrow>
         (let logits_BlV = cfg_combine (cfg * ratio) B raw
          in case subscript top_k (int si) of
               Inl e \<Rightarrow> (Inl e, st)
             | Inr k \<Rightarrow>
                (case subscript temp (int si) of
                   Inl e \<Rightarrow> (Inl e, st)
                 | Inr tp \<Rightarrow>
                    (case sample_idx m r logits_BlV (Scalar k) top_p (Scalar tp) st of
                       (Inl e, st') \<Rightarrow> (Inl e, st')
                     | (Inr idx_Bl, st') \<Rightarrow> (Inr (ratio, logits_BlV, idx_Bl), st')))))"

definition refine_body ::
  "var_model \<Rightarrow> refine_variant \<Rightarrow> (nat \<Rightarrow> nat \<Rightarrow> tensor \<Rightarrow> tensor \<Rightarrow> tensor \<times> tensor) \<Rightarrow> nat \<Rightarrow> real
     \<Rightarrow> int param \<Rightarrow> real \<Rightarrow> bool \<Rightarrow> int \<Rightarrow> real param \<Rightarrow> gen_ref \<Rightarrow> vec list \<Rightarrow> vec list \<Rightarrow> vec list
     \<Rightarrow> bool list list \<Rightarrow> nat \<Rightarrow> int \<Rightarrow> ar_locals \<Rightarrow> var_state \<Rightarrow> (error + ar_locals ctl) \<times> var_state" where
  "refine_body m variant codec B cfg top_k top_p more_smooth entry_num temp r cond_BD cond_BD_or_gss
      lvl_pos attn_bias si pn lv st =
     (let cL = cur_L lv + pn * pn
      in if int si < entry_num then (Inr (Next (lv\<lparr>cur_L := cL\<rparr>)), st)
         else
           (let (x, st1) = forward_blocks m (next_token_map lv) cond_BD_or_gss
                             (if int si = entry_num then Some attn_bias else None) st;
                raw = get_logits m x cond_BD
            in case (if int si = entry_num
                     then refine_entry m variant B cfg top_k top_p temp r entry_num si pn cL raw st1
                     else refine_later m B cfg top_k top_p temp r si raw st1) of
                 (Inl e, st2) \<Rightarrow> (Inl e, st2)
               | (Inr (ratio, logits_BlV, idx_Bl), st2) \<Rightarrow>
                   advance_scale m codec B more_smooth r lvl_pos si pn cL ratio logits_BlV idx_Bl lv st2))"

definition refine_input :: "var_model \<Rightarrow> vec list \<Rightarrow> vec list \<Rightarrow> tensor \<Rightarrow> int \<Rightarrow> error + tensor" where
  \<comment> \<open>\<^verbatim>\<open>next_token_map = self.word_embed(token_hub) + lvl_pos[:,1:pindex]\<close>, then
      \<^verbatim>\<open>.repeat(2, 1, 1)\<close> and \<^verbatim>\<open>torch.cat([first_token_map, next_token_map], dim=1)\<close>. A
      token hub whose length is not that of \<^verbatim>\<open>lvl_pos[:,1:pindex]\<close> is refused by the
      addition, one whose batch size is not \<open>B\<close> by the concatenation.\<close>
  "refine_input m cond_BD lvl_pos draft pindex =
     (case add_embed (word_embed m draft) (py_slice 1 pindex lvl_pos) of
        Inl e \<Rightarrow> Inl e
      | Inr nm \<Rightarrow> cat2_dim1 (first_token_map m cond_BD lvl_pos) (repeat2 nm))"

definition autoregressive_infer_cfg_refine ::
  "var_model \<Rightarrow> nat \<Rightarrow> label \<Rightarrow> int option \<Rightarrow> real \<Rightarrow> int param \<Rightarrow> real \<Rightarrow> bool \<Rightarrow> tensor \<Rightarrow> tensor \<Rightarrow> int
     \<Rightarrow> real param \<Rightarrow> var_state \<Rightarrow> (error + tensor) \<times> var_state" where
  "autoregressive_infer_cfg_refine m B label_B g_seed cfg top_k top_p more_smooth draft fh entry_num temp st =
     (let (r, st0) = seed_generator m g_seed st;
          (labels, st1) = resolve_label m B label_B r st0;
          cond_BD = class_cond m labels;
          lvl_pos = lvl_pos_of m
      in case pindex_of entry_num of
           Inl e \<Rightarrow> (Inl e, st1)
         | Inr pindex \<Rightarrow>
             (case refine_input m cond_BD lvl_pos draft pindex of
                Inl e \<Rightarrow> (Inl e, st1)
              | Inr ntm \<Rightarrow>
                 (let attn_bias = attn_bias_upto (patch_nums m) pindex;
                      cond_BD_or_gss = shared_ada_lin m cond_BD;
                      st2 = set_kv_caching True st1
                  in case for_enumerate
                            (refine_body m CfgRefine (get_next_autoregressive_input m) B cfg top_k top_p
                               more_smooth entry_num temp r cond_BD cond_BD_or_gss lvl_pos attn_bias)
                            0 (patch_nums m)
                            \<lparr>cur_L = 0, f_hat = fh, next_token_map = ntm, token_hub = [],
                              logits_hub = []\<rparr> st2 of
                       (Inl e, st3) \<Rightarrow> (Inl e, st3)
                     | (Inr lv, st3) \<Rightarrow>
                         (Inr (denormalize (fhat_to_img m (f_hat lv))), set_kv_caching False st3))))"

definition autoregressive_inpaint_refine ::
  "var_model \<Rightarrow> nat \<Rightarrow> label \<Rightarrow> int option \<Rightarrow> real \<Rightarrow> int param \<Rightarrow> real \<Rightarrow> bool \<Rightarrow> tensor \<Rightarrow> tensor \<Rightarrow> tensor
     \<Rightarrow> int \<Rightarrow> tensor list \<Rightarrow> tensor \<Rightarrow> tensor \<Rightarrow> real param \<Rightarrow> var_state \<Rightarrow> (error + tensor) \<times> var_state" where
  "autoregressive_inpaint_refine m B label_B g_seed cfg top_k top_p more_smooth draft fh hub entry_num
      f_hats mask_in mask_out temp st =
     (let (r, st0) = seed_generator m g_seed st;
          (labels, st1) = resolve_label m B label_B r st0;
          cond_BD = class_cond m labels;
          lvl_pos = lvl_pos_of m
      in case pindex_of entry_num of
           Inl e \<Rightarrow> (Inl e, st1)
         | Inr pindex \<Rightarrow>
             (case refine_input m cond_BD lvl_pos draft pindex of
                Inl e \<Rightarrow> (Inl e, st1)
              | Inr ntm \<Rightarrow>
                 (let attn_bias = attn_bias_upto (patch_nums m) pindex;
                      cond_BD_or_gss = shared_ada_lin m cond_BD
                  in case py_index (patch_nums m) (- 1) of
                       Inl e \<Rightarrow> (Inl e, st1)
                     | Inr pl \<Rightarrow>
                         (let mask_in' = interpolate_nearest m mask_in pl;
                              mask_out' = interpolate_nearest m mask_out pl;
                              st2 = set_kv_caching True st1
                          in case for_enumerate
                                    (refine_body m (InpaintRefine hub)
                                       (\<lambda>si sn f h.
                                          get_next_autoregressive_input_inpaint m si sn f h f_hats mask_in'
                                            mask_out')
                                       B cfg top_k top_p more_smooth entry_num temp r cond_BD cond_BD_or_gss
                                       lvl_pos attn_bias)
                                    0 (patch_nums m)
                                    \<lparr>cur_L = 0, f_hat = fh, next_token_map = ntm, token_hub = [],
                                      logits_hub = []\<rparr> st2 of
                               (Inl e, st3) \<Rightarrow> (Inl e, st3)
                             | (Inr lv, st3) \<Rightarrow>
                                 (Inr (denormalize (fhat_to_img m (f_hat lv))), set_kv_caching False st3)))))"

section \<open>The beam-search draft\<close>

definition view_rows :: "nat \<Rightarrow> 'a list \<Rightarrow> error + 'a list list" where
  \<comment> \<open>\<^verbatim>\<open>x.view(n, -1)\<close> on the elements of \<open>x\<close> in row-major order.\<close>
  "view_rows n flat =
     (if n = 0 \<or> flat = [] \<or> length flat mod n \<noteq> 0 then Inl RuntimeError
      else Inr (map (\<lambda>i. take (length flat div n) (drop (i * (length flat div n)) flat)) [0..<n]))"

definition view_cols :: "nat \<Rightarrow> 'a list \<Rightarrow> error + 'a list list" where
  \<comment> \<open>\<^verbatim>\<open>x.view(-1, w)\<close>\<close>
  "view_cols w flat =
     (if w = 0 \<or> flat = [] \<or> length flat mod w \<noteq> 0 then Inl RuntimeError
      else Inr (map (\<lambda>i. take w (drop (i * w) flat)) [0..<length flat div w]))"

definition maxl :: "real list \<Rightarrow> real" where
  \<comment> \<open>The maximum over the vocabulary axis, which is not empty.\<close>
  "maxl xs = fold max (tl xs) (hd xs)"

fun argmax_from :: "nat \<Rightarrow> real \<Rightarrow> nat \<Rightarrow> real list \<Rightarrow> nat" where
  "argmax_from bi bv i [] = bi"
| "argmax_from bi bv i (x # xs) =
     (if bv < x then argmax_from i x (Suc i) xs else argmax_from bi bv (Suc i) xs)"

definition argmax :: "real list \<Rightarrow> nat" where
  \<comment> \<open>\<^verbatim>\<open>row.max(dim)[1]\<close>: the index of the first maximal value.\<close>
  "argmax xs = argmax_from 0 (hd xs) 1 (tl xs)"

definition beam_scores :: "tensor \<Rightarrow> real list" where
  \<comment> \<open>\<^verbatim>\<open>logits_BlV.max(dim=-1)[0].sum(dim=1)\<close>\<close>
  "beam_scores logits_BlV = map (\<lambda>row. sum_list (map maxl row)) logits_BlV"

definition index_select :: "'a list \<Rightarrow> nat list \<Rightarrow> error + 'a list" where
  \<comment> \<open>\<^verbatim>\<open>x[selected_indices]\<close>\<close>
  "index_select xs sel =
     (if list_all (\<lambda>i. i < length xs) sel then Inr (map (\<lambda>i. xs ! i) sel) else Inl IndexError)"

definition beam_top_k :: "int param \<Rightarrow> nat \<Rightarrow> error + int param" where
  \<comment> \<open>\<^verbatim>\<open>top_k[si] if isinstance(top_k, (list, tuple)) else top_k\<close>\<close>
  "beam_top_k top_k si =
     (case top_k of
        PerScale xs \<Rightarrow> (case py_index xs (int si) of Inl e \<Rightarrow> Inl e | Inr k \<Rightarrow> Inr (Scalar k))
      | _ \<Rightarrow> Inr top_k)"

fun store_tokens :: "(nat \<Rightarrow> tensor) \<Rightarrow> nat list \<Rightarrow> tensor list list \<Rightarrow> error + tensor list list" where
  \<comment> \<open>\<^verbatim>\<open>for batch_idx in ...: token_storage[batch_idx].append(piece)\<close>; the dictionary has
      the keys \<open>0 .. len-1\<close> from its creation on, so it is a list indexed by the key.\<close>
  "store_tokens piece [] ts = Inr ts"
| "store_tokens piece (k # ks) ts =
     (if k < length ts then store_tokens piece ks (ts[k := ts ! k @ [piece k]]) else Inl KeyError)"

text \<open>
  Modelled from the spec: \<^verbatim>\<open>update_cache_for_beams\<close> of the attention module is the
  cache controller's \<open>expand(factor)\<close>, "replicate every cached entry along the batch axis
  by \<open>factor\<close>". The attributes \<^verbatim>\<open>k_cache\<close> and \<^verbatim>\<open>v_cache\<close>, when the class has them, are
  read as what is cached, one tensor per cached step.
\<close>

definition update_cache_for_beams :: "nat \<Rightarrow> attn \<Rightarrow> attn" where
  "update_cache_for_beams n a = a\<lparr>cached := map (repeat_interleave n) (cached a)\<rparr>"

definition select_cache :: "nat \<Rightarrow> nat \<Rightarrow> nat list \<Rightarrow> tensor \<Rightarrow> error + tensor" where
  \<comment> \<open>\<^verbatim>\<open>k_cache.view(original_B, beamwidth, ...)\<close> needs \<open>original_B * beamwidth\<close> batch rows;
      every group is overwritten by its selected beam; the view back to
      \<^verbatim>\<open>(original_B, ...)\<close> needs as many elements as before, that is \<open>beamwidth = 1\<close>.\<close>
  "select_cache original_B beamwidth best k =
     (if length k \<noteq> original_B * beamwidth then Inl RuntimeError
      else if beamwidth \<noteq> 1 then Inl RuntimeError
      else Inr (concat (map2 (\<lambda>i s. replicate beamwidth (take beamwidth (drop (i * beamwidth) k) ! s))
                          [0..<original_B] best)))"

fun map_err :: "('a \<Rightarrow> error + 'b) \<Rightarrow> 'a list \<Rightarrow> error + 'b list" where
  "map_err f [] = Inr []"
| "map_err f (x # xs) =
     (case f x of
        Inl e \<Rightarrow> Inl e
      | Inr y \<Rightarrow> (case map_err f xs of Inl e \<Rightarrow> Inl e | Inr ys \<Rightarrow> Inr (y # ys)))"

definition prune_caches :: "var_model \<Rightarrow> nat \<Rightarrow> nat \<Rightarrow> nat list \<Rightarrow> attn list \<Rightarrow> error + attn list" where
  \<comment> \<open>The two loops over the blocks guarded by \<^verbatim>\<open>hasattr(b.attn, 'k_cache')\<close>: keep the
      selected beams, then \<^verbatim>\<open>repeat(2, 1, 1)\<close>. An exception here is followed by the
      \<^verbatim>\<open>finally\<close> clause, which empties every cache, so the blocks are returned unchanged
      with it.\<close>
  "prune_caches m original_B beamwidth best bs =
     (if attn_has_k_cache m then
        (case map_err (\<lambda>a. case map_err (select_cache original_B beamwidth best) (cached a) of
                              Inl e \<Rightarrow> Inl e
                            | Inr ks \<Rightarrow> Inr (a\<lparr>cached := ks\<rparr>)) bs of
           Inl e \<Rightarrow> Inl e
         | Inr bs' \<Rightarrow> Inr (map (\<lambda>a. a\<lparr>cached := map repeat2 (cached a)\<rparr>) bs'))
      else Inr bs)"

record beam_locals =
  bm_cur_L :: int
  bm_f_hat :: tensor
  bm_next_token_map :: tensor
  bm_B :: nat
  bm_cond_BD :: "vec list"
  bm_cond_BD_or_gss :: "vec list"
  bm_token_storage :: "tensor list list"
  bm_best_beam_indices :: "nat list"
  bm_active_beams :: nat

definition beam_expand ::
  "var_model \<Rightarrow> int param \<Rightarrow> real \<Rightarrow> real param \<Rightarrow> nat \<Rightarrow> gen_ref \<Rightarrow> nat \<Rightarrow> tensor \<Rightarrow> beam_locals \<Rightarrow> var_state
     \<Rightarrow> (error + nat list list \<times> beam_locals) \<times> var_state" where
  \<comment> \<open>The branch \<^verbatim>\<open>if si < 3\<close>.\<close>
  "beam_expand m top_k top_p temp beamwidth r si logits_BlV lv st =
     (case beam_top_k top_k si of
        Inl e \<Rightarrow> (Inl e, st)
      | Inr k \<Rightarrow>
         (let (s, st') = draw r (\<lambda>g. sample_with_top_k_top_p m g logits_BlV k top_p beamwidth temp) st
          in case view_rows (bm_B lv * beamwidth) (concat (map concat s)) of
               Inl e \<Rightarrow> (Inl e, st')
             | Inr idx_Bl \<Rightarrow>
                 (let current_token_map = to_BlC m (bm_B lv) (bm_next_token_map lv)
                  in case store_tokens (\<lambda>k. py_slice (int k) (int k + 1) current_token_map)
                            [0..<bm_B lv] (bm_token_storage lv) of
                       Inl e \<Rightarrow> (Inl e, st')
                     | Inr ts \<Rightarrow>
                         (Inr (idx_Bl,
                               lv\<lparr>bm_f_hat := repeat_batch beamwidth (bm_f_hat lv),
                                  bm_cond_BD_or_gss := repeat_interleave beamwidth (bm_cond_BD_or_gss lv),
                                  bm_cond_BD := repeat_interleave beamwidth (bm_cond_BD lv),
                                  bm_B := bm_B lv * beamwidth,
                                  bm_active_beams := beamwidth,
                                  bm_token_storage := ts\<rparr>),
                          st'\<lparr>blocks := map (update_cache_for_beams beamwidth) (blocks st')\<rparr>))))"

definition beam_prune ::
  "var_model \<Rightarrow> int param \<Rightarrow> real \<Rightarrow> real param \<Rightarrow> nat \<Rightarrow> gen_ref \<Rightarrow> nat \<Rightarrow> tensor \<Rightarrow> beam_locals \<Rightarrow> var_state
     \<Rightarrow> (error + nat list list \<times> beam_locals) \<times> var_state" where
  \<comment> \<open>The branch \<^verbatim>\<open>elif si == 3\<close>.\<close>
  "beam_prune m top_k top_p temp beamwidth r si logits_BlV lv st =
     (case view_cols beamwidth (beam_scores logits_BlV) of
        Inl e \<Rightarrow> (Inl e, st)
      | Inr rows \<Rightarrow>
         (let best = map argmax rows
          in if bm_active_beams lv = 0 then (Inl ZeroDivisionError, st)
             else
               (let original_B = bm_B lv div bm_active_beams lv;
                    selected = map2 (\<lambda>i s. i * beamwidth + s) [0..<original_B] best
                in case index_select (bm_f_hat lv) selected of
                     Inl e \<Rightarrow> (Inl e, st)
                   | Inr fh \<Rightarrow>
                  (case index_select (bm_cond_BD_or_gss lv) selected of
                     Inl e \<Rightarrow> (Inl e, st)
                   | Inr gss \<Rightarrow>
                  (case index_select (bm_cond_BD lv) selected of
                     Inl e \<Rightarrow> (Inl e, st)
                   | Inr cbd \<Rightarrow>
                  (case index_select logits_BlV selected of
                     Inl e \<Rightarrow> (Inl e, st)
                   | Inr lsel \<Rightarrow>
                  (case beam_top_k top_k si of
                     Inl e \<Rightarrow> (Inl e, st)
                   | Inr k \<Rightarrow>
                  (case sample_idx m r lsel k top_p temp st of
                     (Inl e, st') \<Rightarrow> (Inl e, st')
                   | (Inr idx_Bl, st') \<Rightarrow>
                       (let current_token_map = to_BlC m (bm_B lv) (bm_next_token_map lv)
                        in case store_tokens
                                  (\<lambda>k. py_slice (int (k * beamwidth + best ! k))
                                                 (int (k * beamwidth + best ! k) + 1) current_token_map)
                                  [0..<original_B] (bm_token_storage lv) of
                             Inl e \<Rightarrow> (Inl e, st')
                           | Inr ts \<Rightarrow>
                               (case prune_caches m original_B beamwidth best (blocks st') of
                                  Inl e \<Rightarrow> (Inl e, st')
                                | Inr bs \<Rightarrow>
                                    (Inr (idx_Bl,
                                          lv\<lparr>bm_f_hat := fh,
                                             bm_cond_BD_or_gss := gss,
                                             bm_cond_BD := cbd,
                                             bm_best_beam_indices := best,
                                             bm_token_storage := ts,
                                             bm_B := original_B,
                                             bm_active_beams := 1\<rparr>),
                                     st'\<lparr>blocks := bs\<rparr>)))))))))))"

definition beam_single ::
  "var_model \<Rightarrow> int param \<Rightarrow> real \<Rightarrow> real param \<Rightarrow> gen_ref \<Rightarrow> nat \<Rightarrow> tensor \<Rightarrow> beam_locals \<Rightarrow> var_state
     \<Rightarrow> (error + nat list list \<times> beam_locals) \<times> var_state" where
  \<comment> \<open>The branch \<^verbatim>\<open>else\<close>, for \<open>si > 3\<close>.\<close>
  "beam_single m top_k top_p temp r si logits_BlV lv st =
     (case beam_top_k top_k si of
        Inl e \<Rightarrow> (Inl e, st)
      | Inr k \<Rightarrow>
         (case sample_idx m r logits_BlV k top_p temp st of
            (Inl e, st') \<Rightarrow> (Inl e, st')
          | (Inr idx_Bl, st') \<Rightarrow>
              (let current_token_map = to_BlC m (bm_B lv) (bm_next_token_map lv)
               in case store_tokens (\<lambda>k. py_slice (int k) (int k + 1) current_token_map)
                         [0..<bm_B lv] (bm_token_storage lv) of
                    Inl e \<Rightarrow> (Inl e, st')
                  | Inr ts \<Rightarrow> (Inr (idx_Bl, lv\<lparr>bm_token_storage := ts\<rparr>), st'))))"

definition beam_body ::
  "var_model \<Rightarrow> real \<Rightarrow> int param \<Rightarrow> real \<Rightarrow> bool \<Rightarrow> int \<Rightarrow> real param \<Rightarrow> nat \<Rightarrow> gen_ref \<Rightarrow> vec list
     \<Rightarrow> nat \<Rightarrow> int \<Rightarrow> beam_locals \<Rightarrow> var_state \<Rightarrow> (error + beam_locals ctl) \<times> var_state" where
  "beam_body m cfg top_k top_p more_smooth exit_num temp beamwidth r lvl_pos si pn lv st =
     (if int si = exit_num then (Inr (Break lv), st)
      else
        case ratio_of m si of
          Inl e \<Rightarrow> (Inl e, st)
        | Inr ratio \<Rightarrow>
            (let cL = bm_cur_L lv + pn * pn;
                 (x, st1) = forward_blocks m (bm_next_token_map lv) (bm_cond_BD_or_gss lv) None st;
                 logits_BlV = cfg_combine (cfg * ratio) (bm_B lv) (get_logits m x (bm_cond_BD lv))
             in case (if si < 3 then beam_expand m top_k top_p temp beamwidth r si logits_BlV lv st1
                      else if si = 3 then beam_prune m top_k top_p temp beamwidth r si logits_BlV lv st1
                      else beam_single m top_k top_p temp r si logits_BlV lv st1) of
                  (Inl e, st2) \<Rightarrow> (Inl e, st2)
                | (Inr (idx_Bl, lv1), st2) \<Rightarrow>
                    (let (h, st3) = make_h m r more_smooth ratio logits_BlV idx_Bl st2;
                         (fh, nxt) = get_next_autoregressive_input m si (length (patch_nums m))
                                       (bm_f_hat lv1) (to_BChw m (bm_B lv1) pn h)
                     in case embed_next m lvl_pos cL si (to_BlC m (bm_B lv1) nxt) of
                          Inl e \<Rightarrow> (Inl e, st3)
                        | Inr nm \<Rightarrow>
                            (Inr (Next (lv1\<lparr>bm_cur_L := cL, bm_f_hat := fh, bm_next_token_map := nm\<rparr>)),
                             st3))))"

definition beamsearch_try ::
  "var_model \<Rightarrow> nat \<Rightarrow> label \<Rightarrow> int option \<Rightarrow> real \<Rightarrow> int param \<Rightarrow> real \<Rightarrow> bool \<Rightarrow> int \<Rightarrow> real param \<Rightarrow> nat
     \<Rightarrow> var_state \<Rightarrow> (error + beam_locals) \<times> var_state" where
  \<comment> \<open>The call up to the end of its \<^verbatim>\<open>try\<close> block: the set-up, enabling the caches, the
      loop.\<close>
  "beamsearch_try m B label_B g_seed cfg top_k top_p more_smooth exit_num temp beamwidth st =
     (let (r, st0) = seed_generator m g_seed st;
          (labels, st1) = resolve_label m B label_B r st0;
          cond_BD = class_cond m labels;
          lvl_pos = lvl_pos_of m;
          ntm = first_token_map m cond_BD lvl_pos
      in case py_index (patch_nums m) (- 1) of
           Inl e \<Rightarrow> (Inl e, st1)
         | Inr pl \<Rightarrow>
             for_enumerate (beam_body m cfg top_k top_p more_smooth exit_num temp beamwidth r lvl_pos)
               0 (patch_nums m)
               \<lparr>bm_cur_L = 0,
                 bm_f_hat = zeros B (Cvae m) (nat (pl * pl)),
                 bm_next_token_map = ntm,
                 bm_B = B,
                 bm_cond_BD = cond_BD,
                 bm_cond_BD_or_gss = shared_ada_lin m cond_BD,
                 bm_token_storage = replicate (B * beamwidth ^ 2) [],
                 bm_best_beam_indices = replicate B 0,
                 bm_active_beams = 1\<rparr>
               (set_kv_caching True st1))"

definition cat_dim0 :: "tensor list \<Rightarrow> error + tensor" where
  \<comment> \<open>\<^verbatim>\<open>torch.cat(ts, dim=0)\<close>: refused for no tensors and for tensors of different lengths.\<close>
  "cat_dim0 ts =
     (if ts = [] \<or> \<not> list_all (\<lambda>t. shape1 t = shape1 (hd ts)) ts then Inl RuntimeError
      else Inr (concat ts))"

definition final_tokens :: "nat \<Rightarrow> tensor list list \<Rightarrow> error + tensor" where
  \<comment> \<open>\<^verbatim>\<open>torch.cat([torch.cat(token_storage[i], dim=1) for i in range(B)], dim=0)\<close>\<close>
  "final_tokens B ts =
     (case map_err (\<lambda>i. if i < length ts then cat_dim1 (ts ! i) else Inl KeyError) [0..<B] of
        Inl e \<Rightarrow> Inl e
      | Inr pieces \<Rightarrow> cat_dim0 pieces)"

definition autoregressive_infer_cfg_draft_beamsearch ::
  "var_model \<Rightarrow> nat \<Rightarrow> label \<Rightarrow> int option \<Rightarrow> real \<Rightarrow> int param \<Rightarrow> real \<Rightarrow> bool \<Rightarrow> int \<Rightarrow> real param \<Rightarrow> nat
     \<Rightarrow> var_state \<Rightarrow> (error + tensor \<times> tensor) \<times> var_state" where
  \<comment> \<open>The \<^verbatim>\<open>finally\<close> clause runs \<^verbatim>\<open>kv_caching(False)\<close> and \<^verbatim>\<open>reset_cache()\<close> on every
      block whether the loop ended by itself or by an exception.\<close>
  "autoregressive_infer_cfg_draft_beamsearch m B label_B g_seed cfg top_k top_p more_smooth exit_num temp
      beamwidth st =
     (let (res, st3) = beamsearch_try m B label_B g_seed cfg top_k top_p more_smooth exit_num temp beamwidth st;
          st4 = st3\<lparr>blocks := map (\<lambda>a. reset_cache (kv_caching False a)) (blocks st3)\<rparr>
      in case res of
           Inl e \<Rightarrow> (Inl e, st4)
         | Inr lv \<Rightarrow>
             (case final_tokens (bm_B lv) (bm_token_storage lv) of
                Inl e \<Rightarrow> (Inl e, st4)
              | Inr th \<Rightarrow> (Inr (bm_f_hat lv, th), st4)))"

section \<open>The refine pass in the spec's words\<close>

definition scale_offset :: "int list \<Rightarrow> nat \<Rightarrow> int" where
  \<comment> \<open>\<open>offset[s]\<close>, the sum of \<open>length[i]\<close> for \<open>i < s\<close>.\<close>
  "scale_offset pns s = sum_list (map (\<lambda>pn. pn ^ 2) (take s pns))"



section \<open>compute\_nll\<close>

definition nll_offset :: "int list \<Rightarrow> int \<Rightarrow> int" where
  \<comment> \<open>\<^verbatim>\<open>offset = sum(self.patch_nums[:scale_idx])**2\<close>\<close>
  "nll_offset pns scale_idx = (sum_list (py_prefix scale_idx pns)) ^ 2"

definition label_B_masked :: "var_model \<Rightarrow> real list \<Rightarrow> int list \<Rightarrow> int list" where
  \<comment> \<open>\<^verbatim>\<open>torch.where(u < self.cond_drop_rate, torch.full_like(label_B, self.num_classes), label_B)\<close>
      for the draw \<^verbatim>\<open>u = torch.rand(B)\<close>\<close>
  "label_B_masked m u label_B =
     map2 (\<lambda>ui l. if ui < cond_drop_rate m then num_classes m else l) u label_B"

definition log_softmax :: "vec \<Rightarrow> vec" where
  "log_softmax v = map (\<lambda>x. x - ln (sum_list (map exp v))) v"

definition gather_target :: "tensor \<Rightarrow> nat list list \<Rightarrow> error + real list list" where
  \<comment> \<open>\<^verbatim>\<open>log_probs[batch_idxs, pos_idxs, target_tokens]\<close>: a token outside the vocabulary or
      index tensors of different shapes raise \<^verbatim>\<open>IndexError\<close>.\<close>
  "gather_target log_probs target_tokens =
     (if list_all2 (list_all2 (\<lambda>v t. t < length v)) log_probs target_tokens
      then Inr (map2 (map2 (\<lambda>v t. v ! t)) log_probs target_tokens)
      else Inl IndexError)"

definition mean :: "real list \<Rightarrow> real" where
  \<comment> \<open>\<^verbatim>\<open>x.mean()\<close>; torch gives NaN for no elements, where this gives 0.\<close>
  "mean xs = sum_list xs / real (length xs)"

definition compute_nll ::
  "var_model \<Rightarrow> tensor \<Rightarrow> nat list list \<Rightarrow> int list \<Rightarrow> int \<Rightarrow> var_state \<Rightarrow> (error + real) \<times> var_state" where
  "compute_nll m prefix_tokens target_tokens label_B scale_idx st =
     (let B = length prefix_tokens;
          (u, st1) = draw RngNone (\<lambda>g. rand m g B) st;
          cond_BD = class_emb m (label_B_masked m u label_B);
          prefix0 = word_embed m prefix_tokens;
          offset = nll_offset (patch_nums m) scale_idx;
          plen = int (shape1 prefix0);
          pos_slice = py_slice offset (offset + plen) (pos_1LC m);
          lvl_slice = map (lvl_embed m) (py_slice offset (offset + plen) (lvl_1L (patch_nums m)));
          prefix_embeddings = add_pos (add_pos prefix0 lvl_slice) pos_slice;
          target0 = word_embed m (map transpose (quant_embedding m target_tokens));
          tlen = int (shape1 target0);
          tpos_slice = py_slice (offset + plen) (offset + plen + tlen) (pos_1LC m);
          tlvl_slice = map (lvl_embed m)
                         (py_slice (offset + plen) (offset + plen + tlen) (lvl_1L (patch_nums m)));
          target_embeddings = add_pos (add_pos target0 tlvl_slice) tpos_slice;
          full_input = map2 (@) prefix_embeddings target_embeddings;
          attn_bias = attn_bias_upto (patch_nums m) (int (shape1 full_input));
          cond_BD_or_gss = shared_ada_lin m cond_BD;
          (x, st2) = forward_blocks m full_input cond_BD_or_gss (Some attn_bias) st1;
          logits = get_logits m x cond_BD;
          relevant_logits = slice_pos plen (plen + tlen) logits;
          log_probs = map (map log_softmax) relevant_logits
      in case gather_target log_probs target_tokens of
           Inl e \<Rightarrow> (Inl e, st2)
         | Inr chosen_log_probs \<Rightarrow> (Inr (- mean (concat chosen_log_probs)), st2))"

definition unit_draw :: "real list \<Rightarrow> bool" where
  \<comment> \<open>The values \<^verbatim>\<open>torch.rand\<close> can return lie in \<open>[0, 1)\<close>.\<close>
  "unit_draw u = list_all (\<lambda>x. 0 \<le> x \<and> x < 1) u"

definition rand_ok :: "var_model \<Rightarrow> bool" where
  \<comment> \<open>\<^verbatim>\<open>torch.rand(n)\<close> returns \<open>n\<close> values of \<open>[0, 1)\<close> from every generator state.\<close>
  "rand_ok m = (\<forall>g n. unit_draw (fst (rand m g n)) \<and> length (fst (rand m g n)) = n)"

section \<open>A small model instance for concrete runs\<close>

text \<open>
  \<open>toy_model pns\<close> is an instance over the schedule \<open>pns\<close> with one channel, a vocabulary
  of two tokens and two blocks. Its learned modules are simple arithmetic (the head adds
  the class embedding to every position before it scores the two tokens), its sampler
  returns the parity of the generator state it is given and advances the generator, and
  its codec hands back a token map of the next scale's size. It is used to run the
  calls on concrete inputs.
\<close>

fun parity :: "nat \<Rightarrow> nat" where
  "parity 0 = 0"
| "parity (Suc 0) = 1"
| "parity (Suc (Suc n)) = parity n"

definition toy_codec :: "int list \<Rightarrow> nat \<Rightarrow> nat \<Rightarrow> tensor \<Rightarrow> tensor \<Rightarrow> tensor \<times> tensor" where
  \<comment> \<open>The canvas gains the sum of the new tokens' embeddings; the next token map repeats
      that sum over the next scale's positions, and after the last scale it is the canvas.\<close>
  "toy_codec pns si sn f h =
     (let f' = map2 (\<lambda>fr hr. map (map (\<lambda>v. v + sum_list (concat hr))) fr) f h
      in if Suc si < sn
         then (f', map (\<lambda>hr. replicate (nat ((pns ! Suc si) ^ 2)) [sum_list (concat hr)]) h)
         else (f', f'))"

definition toy_model :: "int list \<Rightarrow> var_model" where
  "toy_model pns =
     \<lparr> patch_nums = pns,
       L = sum_list (map (\<lambda>pn. pn ^ 2) pns),
       first_l = (pns ! 0) ^ 2,
       begin_ends = begin_ends_loop [] 0 pns,
       num_stages_minus_1 = int (length pns) - 1,
       Cvae = 1,
       num_classes = 10,
       cond_drop_rate = 1 / 2,
       class_emb = map (\<lambda>l. [real_of_int l]),
       pos_start = replicate (nat ((pns ! 0) ^ 2)) [0],
       pos_1LC = replicate (nat (sum_list (map (\<lambda>pn. pn ^ 2) pns))) [0],
       lvl_embed = (\<lambda>i. [real_of_int i]),
       word_embed = (\<lambda>t. t),
       shared_ada_lin = (\<lambda>c. c),
       block_fn = (\<lambda>i cache x cond attn_bias. x),
       head_nm = (\<lambda>h cond. map2 (\<lambda>row c. map (\<lambda>v. vadd v c) row) h cond),
       head = map (map (\<lambda>v. [sum_list v, 1])),
       quant_embedding = map (map (\<lambda>i. [real i])),
       codebook_matmul = map (map (\<lambda>v. [sum_list v])),
       get_next_autoregressive_input = toy_codec pns,
       get_next_autoregressive_input_inpaint = (\<lambda>si sn f h f_hats mask_in mask_out. toy_codec pns si sn f h),
       fhat_to_img = (\<lambda>f. f),
       interpolate_nearest = (\<lambda>t n. t),
       to_BChw = (\<lambda>B pn t. t),
       to_BlC = (\<lambda>B t. t),
       manual_seed = (\<lambda>g. nat \<bar>g\<bar>),
       multinomial = (\<lambda>g nc n. (replicate n (int g mod nc), Suc g)),
       rand = (\<lambda>g n. (replicate n (if parity g = 0 then 0 else 3 / 4), Suc g)),
       sample_with_top_k_top_p = (\<lambda>g logits top_k top_p ns temp. (map (map (\<lambda>v. replicate ns (parity g))) logits, Suc g)),
       gumbel_softmax_with_rng = (\<lambda>g t tau. (t, Suc g)),
       attn_has_k_cache = False \<rparr>"

definition toy_state :: "gen \<Rightarrow> gen \<Rightarrow> var_state" where
  \<comment> \<open>Two blocks with caching off and nothing cached, and the two generators' states.\<close>
  "toy_state g d =
     \<lparr> blocks = [\<lparr>caching = False, cached = []\<rparr>, \<lparr>caching = False, cached = []\<rparr>],
       rng = g, default_rng = d \<rparr>"


section \<open>The schedule partitions the token sequence\<close>

lemma begin_ends_loop_append:
  "begin_ends_loop be cur pns = be @ begin_ends_loop [] cur pns"
proof (induction pns arbitrary: be cur)
  case Nil
  show ?case by simp
next
  case (Cons pn pns)
  have "begin_ends_loop be cur (pn # pns) =
          begin_ends_loop (be @ [(cur, cur + pn ^ 2)]) (cur + pn ^ 2) pns"
    by simp
  also have "\<dots> = (be @ [(cur, cur + pn ^ 2)]) @ begin_ends_loop [] (cur + pn ^ 2) pns"
    by (rule Cons.IH)
  also have "\<dots> = be @ begin_ends_loop [(cur, cur + pn ^ 2)] (cur + pn ^ 2) pns"
    using Cons.IH [of "[(cur, cur + pn ^ 2)]" "cur + pn ^ 2"] by simp
  finally show ?case by simp
qed

lemma begin_ends_loop_Cons:
  "begin_ends_loop [] cur (pn # pns) =
     (cur, cur + pn ^ 2) # begin_ends_loop [] (cur + pn ^ 2) pns"
  using begin_ends_loop_append [of "[(cur, cur + pn ^ 2)]" "cur + pn ^ 2" pns] by simp

lemma length_begin_ends_loop:
  "length (begin_ends_loop [] cur pns) = length pns"
  by (induction pns arbitrary: cur) (simp_all add: begin_ends_loop_Cons del: begin_ends_loop.simps(2))

lemma begin_ends_loop_nth:
  "s < length pns \<Longrightarrow>
     begin_ends_loop [] cur pns ! s =
       (cur + sum_list (map (\<lambda>pn. pn ^ 2) (take s pns)),
        cur + sum_list (map (\<lambda>pn. pn ^ 2) (take (Suc s) pns)))"
proof (induction pns arbitrary: cur s)
  case Nil
  then show ?case by simp
next
  case (Cons pn pns)
  show ?case
  proof (cases s)
    case 0
    then show ?thesis by (simp add: begin_ends_loop_Cons del: begin_ends_loop.simps(2))
  next
    case (Suc t)
    with Cons.prems have "t < length pns" by simp
    from Cons.IH [OF this, of "cur + pn ^ 2"] Suc show ?thesis
      by (simp add: begin_ends_loop_Cons add.assoc del: begin_ends_loop.simps(2))
  qed
qed

lemma VAR_init_nonempty:
  "pns \<noteq> [] \<Longrightarrow>
     VAR_init pns =
       Inr \<lparr> patch_nums = pns, L = sum_list (map (\<lambda>pn. pn ^ 2) pns), first_l = (pns ! 0) ^ 2,
             begin_ends = begin_ends_loop [] 0 pns, num_stages_minus_1 = int (length pns) - 1 \<rparr>"
  by (cases pns) (simp_all add: VAR_init_def py_index_def)

lemma VAR_init_empty: "VAR_init [] = Inl IndexError"
  by (simp add: VAR_init_def py_index_def)

lemma block_len_begin_ends_nth:
  assumes "s < length pns"
  shows "block_len (begin_ends_loop [] cur pns ! s) = (pns ! s) ^ 2"
proof -
  have "take (Suc s) pns = take s pns @ [pns ! s]"
    using assms by (rule take_Suc_conv_app_nth)
  then have "sum_list (map (\<lambda>pn. pn ^ 2) (take (Suc s) pns)) =
               sum_list (map (\<lambda>pn. pn ^ 2) (take s pns)) + (pns ! s) ^ 2"
    by simp
  with begin_ends_loop_nth [OF assms, of cur] show ?thesis
    by (simp add: block_len_def)
qed

lemma block_len_begin_ends_loop:
  "map block_len (begin_ends_loop [] cur pns) = map (\<lambda>pn. pn ^ 2) pns"
proof (rule nth_equalityI)
  show "length (map block_len (begin_ends_loop [] cur pns)) = length (map (\<lambda>pn. pn ^ 2) pns)"
    by (simp add: length_begin_ends_loop)
next
  fix s
  assume "s < length (map block_len (begin_ends_loop [] cur pns))"
  then have s: "s < length pns"
    by (simp add: length_begin_ends_loop)
  then show "map block_len (begin_ends_loop [] cur pns) ! s = map (\<lambda>pn. pn ^ 2) pns ! s"
    by (simp add: length_begin_ends_loop block_len_begin_ends_nth)
qed

lemma last_begin_ends_loop:
  assumes "pns \<noteq> []"
  shows "snd (last (begin_ends_loop [] cur pns)) = cur + sum_list (map (\<lambda>pn. pn ^ 2) pns)"
proof -
  from assms have n: "length pns - 1 < length pns" by simp
  have ne: "begin_ends_loop [] cur pns \<noteq> []"
    using assms length_begin_ends_loop [of cur pns] by auto
  have "last (begin_ends_loop [] cur pns) =
          begin_ends_loop [] cur pns ! (length (begin_ends_loop [] cur pns) - 1)"
    using ne by (rule last_conv_nth)
  then have "last (begin_ends_loop [] cur pns) = begin_ends_loop [] cur pns ! (length pns - 1)"
    by (simp only: length_begin_ends_loop)
  moreover have "Suc (length pns - 1) = length pns"
    using n by simp
  ultimately show ?thesis
    using begin_ends_loop_nth [OF n, of cur] by simp
qed

text \<open>
  C6. For a non-empty list of side lengths the constructor succeeds, and its
  \<open>begin_ends\<close> cut \<open>[0, L)\<close> into one block per scale: the first block begins at 0, each
  block begins where the previous one ends, block \<open>s\<close> has \<open>patch_nums[s]\<^sup>2\<close> tokens, the
  last block ends at \<open>L\<close>, and the block lengths add up to \<open>L\<close>. With positive side lengths
  no block is empty.
\<close>

theorem schedule_partition:
  assumes "pns \<noteq> []"
  shows "\<exists>m. VAR_init pns = Inr m
           \<and> length (begin_ends m) = length pns
           \<and> fst (begin_ends m ! 0) = 0
           \<and> (\<forall>s. Suc s < length pns \<longrightarrow> fst (begin_ends m ! Suc s) = snd (begin_ends m ! s))
           \<and> (\<forall>s. s < length pns \<longrightarrow> block_len (begin_ends m ! s) = (pns ! s) ^ 2)
           \<and> snd (last (begin_ends m)) = L m
           \<and> sum_list (map block_len (begin_ends m)) = L m
           \<and> ((\<forall>pn \<in> set pns. 0 < pn) \<longrightarrow>
                (\<forall>s. s < length pns \<longrightarrow> fst (begin_ends m ! s) < snd (begin_ends m ! s)))"
proof -
  let ?be = "begin_ends_loop [] 0 pns"
  from assms have pos: "0 < length pns" by simp
  have a: "length ?be = length pns"
    by (rule length_begin_ends_loop)
  have b: "fst (?be ! 0) = 0"
    using pos by (simp add: begin_ends_loop_nth)
  have c: "\<forall>s. Suc s < length pns \<longrightarrow> fst (?be ! Suc s) = snd (?be ! s)"
    by (simp add: begin_ends_loop_nth)
  have d: "\<forall>s. s < length pns \<longrightarrow> block_len (?be ! s) = (pns ! s) ^ 2"
    by (simp add: block_len_begin_ends_nth)
  have e: "snd (last ?be) = sum_list (map (\<lambda>pn. pn ^ 2) pns)"
    using last_begin_ends_loop [OF assms, of 0] by simp
  have f: "sum_list (map block_len ?be) = sum_list (map (\<lambda>pn. pn ^ 2) pns)"
    by (simp add: block_len_begin_ends_loop)
  have g: "(\<forall>pn \<in> set pns. 0 < pn) \<longrightarrow> (\<forall>s. s < length pns \<longrightarrow> fst (?be ! s) < snd (?be ! s))"
  proof (intro impI allI)
    fix s
    assume p: "\<forall>pn \<in> set pns. 0 < pn" and s: "s < length pns"
    then have "0 < pns ! s" by simp
    then have "0 < (pns ! s) ^ 2" by simp
    moreover from d s have "snd (?be ! s) - fst (?be ! s) = (pns ! s) ^ 2"
      by (simp add: block_len_def)
    ultimately show "fst (?be ! s) < snd (?be ! s)"
      by linarith
  qed
  show ?thesis
    unfolding VAR_init_nonempty [OF assms]
    using a b c d e f g by simp
qed

theorem schedule_partition_witness:
  "\<exists>m. VAR_init [1, 2, 3] = Inr m
       \<and> begin_ends m = [(0, 1), (1, 5), (5, 14)]
       \<and> L m = 14
       \<and> sum_list (map block_len (begin_ends m)) = 14"
  using schedule_partition [of "[1, 2, 3]"]
  by (simp add: VAR_init_def py_index_def block_len_def)

section \<open>The re-entry table of the refine calls\<close>

lemma begin_ends_default:
  "begin_ends_loop [] 0 default_patch_nums =
     [(0, 1), (1, 5), (5, 14), (14, 30), (30, 55), (55, 91), (91, 155), (155, 255), (255, 424), (424, 680)]"
  by (simp add: default_patch_nums_def)

lemma pindex_of_in_range:
  assumes "0 \<le> e" and "e < 10"
  shows "pindex_of e = Inr (snd (begin_ends_loop [] 0 default_patch_nums ! nat e))"
proof -
  from assms have "e = 0 \<or> e = 1 \<or> e = 2 \<or> e = 3 \<or> e = 4 \<or> e = 5 \<or> e = 6 \<or> e = 7 \<or> e = 8 \<or> e = 9"
    by arith
  then show ?thesis
    unfolding begin_ends_default
    by (elim disjE) (simp_all add: pindex_of_def py_index_def exit_points_def)
qed

lemma pindex_of_out_of_range:
  assumes "e < - 10 \<or> 10 \<le> e"
  shows "pindex_of e = Inl IndexError"
  using assms by (auto simp: pindex_of_def py_index_def exit_points_def)

lemma pindex_of_negative:
  assumes "- 10 \<le> e" and "e < 0"
  shows "pindex_of e = pindex_of (e + 10)"
  using assms by (simp add: pindex_of_def py_index_def exit_points_def add.commute)

text \<open>
  C4, as the code has it. The table \<open>exit_points\<close> is a constant of the refine calls and
  is not computed from \<open>patch_nums\<close>. For the default schedule
  \<open>(1, 2, 3, 4, 5, 6, 8, 10, 13, 16)\<close> and \<open>0 \<le> entry_num < 10\<close> its entry is the end of block
  \<open>entry_num\<close> of the schedule, the sum of \<open>patch_nums[i]\<^sup>2\<close> for \<open>i \<le> entry_num\<close>. An index of
  10 or more, or below -10, raises \<^verbatim>\<open>IndexError\<close>; an index from -10 to -1 counts from the
  end of the table.
\<close>

theorem exit_points_default_schedule:
  "(\<forall>e. 0 \<le> e \<and> e < 10 \<longrightarrow>
       (\<exists>m. VAR_init default_patch_nums = Inr m
          \<and> pindex_of e = Inr (snd (begin_ends m ! nat e))
          \<and> pindex_of e = Inr (sum_list (map (\<lambda>pn. pn ^ 2) (take (Suc (nat e)) (patch_nums m))))))
   \<and> (\<forall>e. e < - 10 \<or> 10 \<le> e \<longrightarrow> pindex_of e = Inl IndexError)
   \<and> (\<forall>e. - 10 \<le> e \<and> e < 0 \<longrightarrow> pindex_of e = pindex_of (e + 10))"
proof (intro conjI allI impI)
  fix e :: int
  assume e: "0 \<le> e \<and> e < 10"
  have ne: "default_patch_nums \<noteq> []"
    by (simp add: default_patch_nums_def)
  have "length default_patch_nums = 10"
    by (simp add: default_patch_nums_def)
  with e have n: "nat e < length default_patch_nums"
    by arith
  have "snd (begin_ends_loop [] 0 default_patch_nums ! nat e) =
          sum_list (map (\<lambda>pn. pn ^ 2) (take (Suc (nat e)) default_patch_nums))"
    using begin_ends_loop_nth [OF n, of 0] by simp
  with e show "\<exists>m. VAR_init default_patch_nums = Inr m
          \<and> pindex_of e = Inr (snd (begin_ends m ! nat e))
          \<and> pindex_of e = Inr (sum_list (map (\<lambda>pn. pn ^ 2) (take (Suc (nat e)) (patch_nums m))))"
    unfolding VAR_init_nonempty [OF ne]
    by (simp add: pindex_of_in_range)
next
  fix e :: int
  assume "e < - 10 \<or> 10 \<le> e"
  then show "pindex_of e = Inl IndexError"
    by (rule pindex_of_out_of_range)
next
  fix e :: int
  assume "- 10 \<le> e \<and> e < 0"
  then show "pindex_of e = pindex_of (e + 10)"
    by (simp add: pindex_of_negative)
qed

theorem exit_points_default_schedule_witness:
  "(\<exists>m. VAR_init default_patch_nums = Inr m \<and> pindex_of 2 = Inr (snd (begin_ends m ! 2)))
   \<and> pindex_of 2 = Inr 14
   \<and> pindex_of 10 = Inl IndexError
   \<and> pindex_of (- 1) = Inr 680"
proof -
  have a: "\<exists>m. VAR_init default_patch_nums = Inr m
              \<and> pindex_of 2 = Inr (snd (begin_ends m ! nat 2))
              \<and> pindex_of 2 = Inr (sum_list (map (\<lambda>pn. pn ^ 2) (take (Suc (nat 2)) (patch_nums m))))"
    using exit_points_default_schedule [THEN conjunct1, rule_format, of 2] by simp
  have b: "pindex_of 10 = Inl IndexError"
    using exit_points_default_schedule [THEN conjunct2, THEN conjunct1, rule_format, of 10] by simp
  have c: "pindex_of (- 1) = pindex_of (- 1 + 10)"
    using exit_points_default_schedule [THEN conjunct2, THEN conjunct2, rule_format, of "- 1"] by simp
  have d: "pindex_of 9 = Inr 680"
    by (simp add: pindex_of_def py_index_def exit_points_def)
  have e: "pindex_of 2 = Inr 14"
    by (simp add: pindex_of_def py_index_def exit_points_def)
  from a b c d e show ?thesis
    by auto
qed

text \<open>
  The claim as stated fails for a schedule other than the default one: for
  \<open>patch_nums = (1, 2, 4)\<close> and \<open>entry_num = 2\<close> the table gives 14, while the schedule's
  block 2 ends at \<open>1 + 4 + 16 = 21\<close>; the lookup succeeds and raises nothing.
\<close>

theorem exit_points_counterexample:
  "\<exists>m. VAR_init [1, 2, 4] = Inr m
       \<and> pindex_of 2 = Inr 14
       \<and> snd (begin_ends m ! 2) = 21
       \<and> sum_list (map (\<lambda>pn. pn ^ 2) (take 3 (patch_nums m))) = 21"
  by (simp add: VAR_init_def py_index_def pindex_of_def exit_points_def)

section \<open>compute\_nll: where the prefix is placed\<close>

text \<open>
  C9, evaluated. For the default schedule and \<open>scale_idx = 2\<close> the offset computed by
  \<^verbatim>\<open>compute_nll\<close> is \<open>(1 + 2)\<^sup>2 = 9\<close>, while scale 2 begins at \<open>1\<^sup>2 + 2\<^sup>2 = 5\<close> in the schedule
  the constructor built.
\<close>

theorem compute_nll_offset_default_scale2:
  "nll_offset default_patch_nums 2 = 9
   \<and> fst (begin_ends_loop [] 0 default_patch_nums ! 2) = 5
   \<and> sum_list (map (\<lambda>pn. pn ^ 2) (take 2 default_patch_nums)) = 5"
  unfolding begin_ends_default
  by (simp add: nll_offset_def py_prefix_def norm_bound_def default_patch_nums_def)

section \<open>Running the small instance\<close>

lemma toy_sel:
  "patch_nums (toy_model pns) = pns"
  "L (toy_model pns) = sum_list (map (\<lambda>pn. pn ^ 2) pns)"
  "first_l (toy_model pns) = (pns ! 0) ^ 2"
  "begin_ends (toy_model pns) = begin_ends_loop [] 0 pns"
  "num_stages_minus_1 (toy_model pns) = int (length pns) - 1"
  "Cvae (toy_model pns) = 1"
  "num_classes (toy_model pns) = 10"
  "cond_drop_rate (toy_model pns) = 1 / 2"
  "class_emb (toy_model pns) = map (\<lambda>l. [real_of_int l])"
  "pos_start (toy_model pns) = replicate (nat ((pns ! 0) ^ 2)) [0]"
  "pos_1LC (toy_model pns) = replicate (nat (sum_list (map (\<lambda>pn. pn ^ 2) pns))) [0]"
  "lvl_embed (toy_model pns) = (\<lambda>i. [real_of_int i])"
  "word_embed (toy_model pns) = (\<lambda>t. t)"
  "shared_ada_lin (toy_model pns) = (\<lambda>c. c)"
  "block_fn (toy_model pns) = (\<lambda>i cache x cond attn_bias. x)"
  "head_nm (toy_model pns) = (\<lambda>h cond. map2 (\<lambda>row c. map (\<lambda>v. vadd v c) row) h cond)"
  "head (toy_model pns) = map (map (\<lambda>v. [sum_list v, 1]))"
  "quant_embedding (toy_model pns) = map (map (\<lambda>i. [real i]))"
  "codebook_matmul (toy_model pns) = map (map (\<lambda>v. [sum_list v]))"
  "get_next_autoregressive_input (toy_model pns) = toy_codec pns"
  "get_next_autoregressive_input_inpaint (toy_model pns) = (\<lambda>si sn f h f_hats mask_in mask_out. toy_codec pns si sn f h)"
  "fhat_to_img (toy_model pns) = (\<lambda>f. f)"
  "interpolate_nearest (toy_model pns) = (\<lambda>t n. t)"
  "to_BChw (toy_model pns) = (\<lambda>B pn t. t)"
  "to_BlC (toy_model pns) = (\<lambda>B t. t)"
  "manual_seed (toy_model pns) = (\<lambda>g. nat \<bar>g\<bar>)"
  "multinomial (toy_model pns) = (\<lambda>g nc n. (replicate n (int g mod nc), Suc g))"
  "rand (toy_model pns) = (\<lambda>g n. (replicate n (if parity g = 0 then 0 else 3 / 4), Suc g))"
  "sample_with_top_k_top_p (toy_model pns) = (\<lambda>g logits top_k top_p ns temp. (map (map (\<lambda>v. replicate ns (parity g))) logits, Suc g))"
  "gumbel_softmax_with_rng (toy_model pns) = (\<lambda>g t tau. (t, Suc g))"
  "attn_has_k_cache (toy_model pns) = False"
  by (simp_all add: toy_model_def)

lemmas toy_defs = toy_sel toy_state_def seed_generator_def resolve_label_def
  class_cond_def lvl_pos_of_def first_token_map_def py_index_def zeros_def set_kv_caching_def kv_caching_def
  ratio_of_def forward_blocks_def block_forward_def get_logits_def cfg_combine_def subscript_def
  sample_idx_def draw_def idx0_def make_h_def toy_codec_def embed_next_def repeat2_def add_pos_def vadd_def
  py_slice_def py_prefix_def py_suffix_def norm_bound_def lvl_1L_def denormalize_def mul_scalar_def
  Let_def eval_nat_numeral

section \<open>Classifier-free guidance\<close>

lemma map2_left_id:
  "list_all2 (\<lambda>x y. f x y = x) xs ys \<Longrightarrow> map2 f xs ys = xs"
  by (induction rule: list_all2_induct) simp_all

lemma map2_nth:
  "i < length xs \<Longrightarrow> i < length ys \<Longrightarrow> map2 f xs ys ! i = f (xs ! i) (ys ! i)"
  by simp

lemma map2_fst_id:
  "length xs = length ys \<Longrightarrow> map2 (\<lambda>x y. x) xs ys = xs"
  by (induction xs ys rule: list_induct2) simp_all

lemma cfg_combine_zero:
  assumes "list_all2 (list_all2 (\<lambda>c u. length c = length u)) (take B logits) (drop B logits)"
  shows "cfg_combine 0 B logits = take B logits"
proof -
  let ?f = "\<lambda>(c :: real) (u :: real). (1 + 0) * c - 0 * u"
  have vec: "map2 ?f c u = c" if "length c = length u" for c u :: vec
    using that by (simp add: map2_fst_id)
  have row: "map2 (map2 ?f) r s = r"
    if "list_all2 (\<lambda>c u. length c = length u) r s" for r s :: "vec list"
  proof (rule map2_left_id)
    show "list_all2 (\<lambda>x y. map2 ?f x y = x) r s"
      using that by (rule list_all2_mono) (rule vec)
  qed
  have "map2 (map2 (map2 ?f)) (take B logits) (drop B logits) = take B logits"
  proof (rule map2_left_id)
    show "list_all2 (\<lambda>x y. map2 (map2 ?f) x y = x) (take B logits) (drop B logits)"
      using assms by (rule list_all2_mono) (rule row)
  qed
  then show ?thesis
    unfolding cfg_combine_def by simp
qed

lemma cfg_combine_nth:
  assumes len: "length logits = 2 * B"
    and shape: "list_all2 (list_all2 (\<lambda>c u. length c = length u)) (take B logits) (drop B logits)"
    and b: "b < B" and p: "p < length (logits ! b)" and v: "v < length (logits ! b ! p)"
  shows "cfg_combine t B logits ! b ! p ! v =
           (1 + t) * logits ! b ! p ! v - t * logits ! (B + b) ! p ! v"
proof -
  from len b have bt: "b < length (take B logits)" and bd: "b < length (drop B logits)"
    by simp_all
  have tb: "take B logits ! b = logits ! b" and db: "drop B logits ! b = logits ! (B + b)"
    using len b by simp_all
  from shape bt have rows: "list_all2 (\<lambda>c u. length c = length u) (logits ! b) (logits ! (B + b))"
    using list_all2_nthD [OF shape bt] tb db by simp
  then have pl: "p < length (logits ! (B + b))"
    using p by (simp add: list_all2_lengthD)
  from rows p have vl: "length (logits ! b ! p) = length (logits ! (B + b) ! p)"
    by (rule list_all2_nthD)
  have "cfg_combine t B logits ! b =
          map2 (map2 (\<lambda>c u. (1 + t) * c - t * u)) (logits ! b) (logits ! (B + b))"
    unfolding cfg_combine_def using map2_nth [OF bt bd] tb db by simp
  then have "cfg_combine t B logits ! b ! p =
          map2 (\<lambda>c u. (1 + t) * c - t * u) (logits ! b ! p) (logits ! (B + b) ! p)"
    using map2_nth [OF p pl] by simp
  then show ?thesis
    using v vl by simp
qed

lemma infer_cfg_body_guided:
  assumes nz: "num_stages_minus_1 m \<noteq> 0"
    and fw: "forward_blocks m (next_token_map lv) gss None st = (x, st1)"
  shows "infer_cfg_body m B cfg top_k top_p ms r cond gss lvl_pos si pn lv st =
           (case sample_idx m r
                   (cfg_combine (cfg * (real si / real_of_int (num_stages_minus_1 m))) B (get_logits m x cond))
                   top_k top_p Unset st1 of
              (Inl e, st2) \<Rightarrow> (Inl e, st2)
            | (Inr idx_Bl, st2) \<Rightarrow>
                advance_scale m (get_next_autoregressive_input m) B ms r lvl_pos si pn (cur_L lv + pn * pn)
                  (real si / real_of_int (num_stages_minus_1 m))
                  (cfg_combine (cfg * (real si / real_of_int (num_stages_minus_1 m))) B (get_logits m x cond))
                  idx_Bl lv st2)"
  using nz fw
  by (simp add: infer_cfg_body_def ratio_of_def advance_scale_def Let_def split: prod.splits sum.splits)

lemma infer_cfg_call_loop:
  assumes "patch_nums m \<noteq> []"
  shows "autoregressive_infer_cfg m B label_B g_seed cfg top_k top_p ms st0 =
     (let (r, s0) = seed_generator m g_seed st0;
          (labels, s1) = resolve_label m B label_B r s0;
          cond = class_emb m (labels @ replicate (length labels) (num_classes m))
      in case for_enumerate
                (infer_cfg_body m B cfg top_k top_p ms r cond (shared_ada_lin m cond) (lvl_pos_of m))
                0 (patch_nums m)
                \<lparr>cur_L = 0, f_hat = zeros B (Cvae m) (nat (last (patch_nums m) * last (patch_nums m))),
                  next_token_map = first_token_map m cond (lvl_pos_of m), token_hub = [],
                  logits_hub = []\<rparr>
                (set_kv_caching True s1) of
           (Inl e, s3) \<Rightarrow> (Inl e, s3)
         | (Inr lv', s3) \<Rightarrow> (Inr (denormalize (fhat_to_img m (f_hat lv'))), set_kv_caching False s3))"
proof -
  from assms obtain p ps where c: "patch_nums m = p # ps"
    by (cases "patch_nums m") simp_all
  have "nat (int (length ps)) = length ps"
    by simp
  then have "py_index (p # ps) (- 1) = Inr (last (p # ps))"
    by (simp add: py_index_def last_conv_nth)
  then have "py_index (patch_nums m) (- 1) = Inr (last (patch_nums m))"
    by (simp only: c)
  then show ?thesis
    by (simp add: autoregressive_infer_cfg_def class_cond_def Let_def split: prod.splits)
qed

text \<open>
  C5. \<open>infer_cfg_body\<close> is the body of the loop of \<^verbatim>\<open>autoregressive_infer_cfg\<close>. For a
  schedule of \<open>S \<ge> 2\<close> scales, at step \<open>si\<close> it runs the blocks on the doubled batch, and
  the logits \<open>G\<close> it gives to the sampler (and to everything after it) have \<open>B\<close> rows with
  \<open>G[b] = (1 + t) * logits[b] - t * logits[B + b]\<close> entry by entry, \<open>t = cfg * si / (S-1)\<close>;
  at \<open>si = 0\<close>, \<open>t = 0\<close> and \<open>G\<close> is the first \<open>B\<close> rows of the logits unchanged. The call
  builds the doubled batch from the class indices \<open>label_B\<close> followed by as many copies
  of the null class \<^verbatim>\<open>num_classes\<close>: the first \<open>B\<close> rows are the conditional branch. With
  a single scale there is no guided step: \<^verbatim>\<open>si / self.num_stages_minus_1\<close> raises
  \<^verbatim>\<open>ZeroDivisionError\<close> before the blocks run.
\<close>

theorem cfg_combination:
  assumes "num_stages_minus_1 m = int (length (patch_nums m)) - 1"
    and "forward_blocks m (next_token_map lv) gss None st = (x, st1)"
    and "length (get_logits m x cond) = 2 * B"
    and "list_all2 (list_all2 (\<lambda>c u. length c = length u))
           (take B (get_logits m x cond)) (drop B (get_logits m x cond))"
  shows
    "(2 \<le> length (patch_nums m) \<longrightarrow>
        (\<exists>t G.
            t = cfg * (real si / (real (length (patch_nums m)) - 1))
          \<and> infer_cfg_body m B cfg top_k top_p ms r cond gss lvl_pos si pn lv st =
              (case sample_idx m r G top_k top_p Unset st1 of
                 (Inl e, st2) \<Rightarrow> (Inl e, st2)
               | (Inr idx_Bl, st2) \<Rightarrow>
                   advance_scale m (get_next_autoregressive_input m) B ms r lvl_pos si pn
                     (cur_L lv + pn * pn) (real si / (real (length (patch_nums m)) - 1)) G idx_Bl lv st2)
          \<and> length G = B
          \<and> (\<forall>b p v. b < B \<and> p < length (get_logits m x cond ! b)
                     \<and> v < length (get_logits m x cond ! b ! p) \<longrightarrow>
                G ! b ! p ! v =
                  (1 + t) * get_logits m x cond ! b ! p ! v - t * get_logits m x cond ! (B + b) ! p ! v)
          \<and> (si = 0 \<longrightarrow> t = 0 \<and> G = take B (get_logits m x cond))))
   \<and> (length (patch_nums m) = 1 \<longrightarrow>
        infer_cfg_body m B cfg top_k top_p ms r cond gss lvl_pos si pn lv st = (Inl ZeroDivisionError, st))
   \<and> (patch_nums m \<noteq> [] \<longrightarrow>
        autoregressive_infer_cfg m B label_B g_seed cfg top_k top_p ms st0 =
          (let (r, s0) = seed_generator m g_seed st0;
               (labels, s1) = resolve_label m B label_B r s0;
               cond = class_emb m (labels @ replicate (length labels) (num_classes m))
           in case for_enumerate
                     (infer_cfg_body m B cfg top_k top_p ms r cond (shared_ada_lin m cond) (lvl_pos_of m))
                     0 (patch_nums m)
                     \<lparr>cur_L = 0,
                       f_hat = zeros B (Cvae m) (nat (last (patch_nums m) * last (patch_nums m))),
                       next_token_map = first_token_map m cond (lvl_pos_of m), token_hub = [],
                       logits_hub = []\<rparr>
                     (set_kv_caching True s1) of
                (Inl e, s3) \<Rightarrow> (Inl e, s3)
              | (Inr lv', s3) \<Rightarrow> (Inr (denormalize (fhat_to_img m (f_hat lv'))), set_kv_caching False s3)))
   \<and> resolve_label m B (LabelInt l) r st0 = (replicate B (if l < 0 then num_classes m else l), st0)"
proof (intro conjI impI)
  assume S: "2 \<le> length (patch_nums m)"
  let ?logits = "get_logits m x cond"
  let ?ratio = "real si / (real (length (patch_nums m)) - 1)"
  let ?t = "cfg * ?ratio"
  let ?G = "cfg_combine ?t B ?logits"
  from assms(1) S have nz: "num_stages_minus_1 m \<noteq> 0"
    by simp
  from assms(1) S have rs: "real_of_int (num_stages_minus_1 m) = real (length (patch_nums m)) - 1"
    by simp
  have body: "infer_cfg_body m B cfg top_k top_p ms r cond gss lvl_pos si pn lv st =
              (case sample_idx m r ?G top_k top_p Unset st1 of
                 (Inl e, st2) \<Rightarrow> (Inl e, st2)
               | (Inr idx_Bl, st2) \<Rightarrow>
                   advance_scale m (get_next_autoregressive_input m) B ms r lvl_pos si pn
                     (cur_L lv + pn * pn) ?ratio ?G idx_Bl lv st2)"
    using infer_cfg_body_guided [OF nz assms(2), of B cfg top_k top_p ms r cond lvl_pos si pn]
    unfolding rs .
  have l: "length ?G = B"
    using assms(3) by (simp add: cfg_combine_def)
  have e: "\<forall>b p v. b < B \<and> p < length (?logits ! b) \<and> v < length (?logits ! b ! p) \<longrightarrow>
               ?G ! b ! p ! v = (1 + ?t) * ?logits ! b ! p ! v - ?t * ?logits ! (B + b) ! p ! v"
    using cfg_combine_nth [OF assms(3,4)] by blast
  have z: "si = 0 \<longrightarrow> ?t = 0 \<and> ?G = take B ?logits"
    using cfg_combine_zero [OF assms(4)] by simp
  from body l e z
  show "\<exists>t G.
            t = cfg * (real si / (real (length (patch_nums m)) - 1))
          \<and> infer_cfg_body m B cfg top_k top_p ms r cond gss lvl_pos si pn lv st =
              (case sample_idx m r G top_k top_p Unset st1 of
                 (Inl e, st2) \<Rightarrow> (Inl e, st2)
               | (Inr idx_Bl, st2) \<Rightarrow>
                   advance_scale m (get_next_autoregressive_input m) B ms r lvl_pos si pn
                     (cur_L lv + pn * pn) (real si / (real (length (patch_nums m)) - 1)) G idx_Bl lv st2)
          \<and> length G = B
          \<and> (\<forall>b p v. b < B \<and> p < length (get_logits m x cond ! b)
                     \<and> v < length (get_logits m x cond ! b ! p) \<longrightarrow>
                G ! b ! p ! v =
                  (1 + t) * get_logits m x cond ! b ! p ! v - t * get_logits m x cond ! (B + b) ! p ! v)
          \<and> (si = 0 \<longrightarrow> t = 0 \<and> G = take B (get_logits m x cond))"
    by (intro exI [of _ ?t] exI [of _ ?G] conjI refl)
next
  assume "length (patch_nums m) = 1"
  with assms(1) have "num_stages_minus_1 m = 0"
    by simp
  then show "infer_cfg_body m B cfg top_k top_p ms r cond gss lvl_pos si pn lv st = (Inl ZeroDivisionError, st)"
    by (simp add: infer_cfg_body_def ratio_of_def)
next
  assume "patch_nums m \<noteq> []"
  then show "autoregressive_infer_cfg m B label_B g_seed cfg top_k top_p ms st0 =
          (let (r, s0) = seed_generator m g_seed st0;
               (labels, s1) = resolve_label m B label_B r s0;
               cond = class_emb m (labels @ replicate (length labels) (num_classes m))
           in case for_enumerate
                     (infer_cfg_body m B cfg top_k top_p ms r cond (shared_ada_lin m cond) (lvl_pos_of m))
                     0 (patch_nums m)
                     \<lparr>cur_L = 0,
                       f_hat = zeros B (Cvae m) (nat (last (patch_nums m) * last (patch_nums m))),
                       next_token_map = first_token_map m cond (lvl_pos_of m), token_hub = [],
                       logits_hub = []\<rparr>
                     (set_kv_caching True s1) of
                (Inl e, s3) \<Rightarrow> (Inl e, s3)
              | (Inr lv', s3) \<Rightarrow> (Inr (denormalize (fhat_to_img m (f_hat lv'))), set_kv_caching False s3))"
    by (rule infer_cfg_call_loop)
next
  show "resolve_label m B (LabelInt l) r st0 = (replicate B (if l < 0 then num_classes m else l), st0)"
    by (simp add: resolve_label_def)
qed

theorem cfg_combination_witness:
  "(\<exists>G. infer_cfg_body (toy_model [1, 2, 3]) 1 (3 / 2) (Scalar 0) 0 False SelfRng [[0], [10]] [[0], [10]]
          [[0], [1], [1], [1], [1]] 1 2
          \<lparr>cur_L = 1, f_hat = [[[0]]], next_token_map = [[[1], [2]], [[3], [4]]], token_hub = [],
            logits_hub = []\<rparr> (toy_state 5 7) =
        (case sample_idx (toy_model [1, 2, 3]) SelfRng G (Scalar 0) 0 Unset (toy_state 5 7) of
           (Inl e, st2) \<Rightarrow> (Inl e, st2)
         | (Inr idx_Bl, st2) \<Rightarrow>
             advance_scale (toy_model [1, 2, 3]) (get_next_autoregressive_input (toy_model [1, 2, 3])) 1 False
               SelfRng [[0], [1], [1], [1], [1]] 1 2 5 (1 / 2) G idx_Bl
               \<lparr>cur_L = 1, f_hat = [[[0]]], next_token_map = [[[1], [2]], [[3], [4]]], token_hub = [],
                 logits_hub = []\<rparr> st2)
      \<and> length G = 1 \<and> G ! 0 ! 0 ! 0 = - 8 \<and> G ! 0 ! 1 ! 1 = 1)
   \<and> infer_cfg_body (toy_model [1]) 1 (3 / 2) (Scalar 0) 0 False SelfRng [[0], [10]] [[0], [10]] [[0]] 0 1
        \<lparr>cur_L = 0, f_hat = [[[0]]], next_token_map = [[[1]], [[3]]], token_hub = [], logits_hub = []\<rparr>
        (toy_state 5 7) = (Inl ZeroDivisionError, toy_state 5 7)"
proof -
  let ?m = "toy_model [1, 2, 3]"
  let ?cond = "[[0], [10 :: real]]"
  let ?x = "[[[1], [2]], [[3], [4 :: real]]]"
  let ?lv = "\<lparr>cur_L = 1, f_hat = [[[0]]], next_token_map = ?x, token_hub = [], logits_hub = []\<rparr>"
  have lg: "get_logits ?m ?x ?cond = [[[1, 1], [2, 1]], [[13, 1], [14, 1]]]"
    by (simp add: toy_defs)
  have h1: "num_stages_minus_1 ?m = int (length (patch_nums ?m)) - 1"
    by (simp add: toy_sel)
  have h2: "forward_blocks ?m (next_token_map ?lv) ?cond None (toy_state 5 7) = (?x, toy_state 5 7)"
    by (simp add: toy_defs)
  have h3: "length (get_logits ?m ?x ?cond) = 2 * 1"
    by (simp add: lg)
  have h4: "list_all2 (list_all2 (\<lambda>c u. length c = length u))
              (take 1 (get_logits ?m ?x ?cond)) (drop 1 (get_logits ?m ?x ?cond))"
    by (simp add: lg)
  have S: "2 \<le> length (patch_nums ?m)"
    by (simp add: toy_sel)
  have r: "real 1 / (real (length (patch_nums ?m)) - 1) = 1 / 2"
    by (simp add: toy_sel)
  from cfg_combination [OF h1 h2 h3 h4, where si = 1 and cfg = "3 / 2" and top_k = "Scalar 0"
         and top_p = 0 and ms = False and r = SelfRng and lvl_pos = "[[0], [1], [1], [1], [1]]" and pn = 2,
         THEN conjunct1, THEN mp, OF S]
  obtain t G where
    t: "t = 3 / 2 * (1 / 2)"
    and body: "infer_cfg_body ?m 1 (3 / 2) (Scalar 0) 0 False SelfRng ?cond ?cond [[0], [1], [1], [1], [1]] 1 2
                 ?lv (toy_state 5 7) =
               (case sample_idx ?m SelfRng G (Scalar 0) 0 Unset (toy_state 5 7) of
                  (Inl e, st2) \<Rightarrow> (Inl e, st2)
                | (Inr idx_Bl, st2) \<Rightarrow>
                    advance_scale ?m (get_next_autoregressive_input ?m) 1 False SelfRng
                      [[0], [1], [1], [1], [1]] 1 2 (cur_L ?lv + 2 * 2) (1 / 2) G idx_Bl ?lv st2)"
    and len: "length G = 1"
    and pt: "\<forall>b p v. b < 1 \<and> p < length (get_logits ?m ?x ?cond ! b)
                     \<and> v < length (get_logits ?m ?x ?cond ! b ! p) \<longrightarrow>
                G ! b ! p ! v =
                  (1 + t) * get_logits ?m ?x ?cond ! b ! p ! v - t * get_logits ?m ?x ?cond ! (1 + b) ! p ! v"
    unfolding r by blast
  from pt [rule_format, of 0 0 0] have g0: "G ! 0 ! 0 ! 0 = - 8"
    by (simp add: lg t)
  from pt [rule_format, of 0 1 1] have g1: "G ! 0 ! 1 ! 1 = 1"
    by (simp add: lg t)
  have c: "cur_L ?lv + 2 * 2 = 5"
    by simp
  from body have body': "infer_cfg_body ?m 1 (3 / 2) (Scalar 0) 0 False SelfRng ?cond ?cond
                 [[0], [1], [1], [1], [1]] 1 2 ?lv (toy_state 5 7) =
               (case sample_idx ?m SelfRng G (Scalar 0) 0 Unset (toy_state 5 7) of
                  (Inl e, st2) \<Rightarrow> (Inl e, st2)
                | (Inr idx_Bl, st2) \<Rightarrow>
                    advance_scale ?m (get_next_autoregressive_input ?m) 1 False SelfRng
                      [[0], [1], [1], [1], [1]] 1 2 5 (1 / 2) G idx_Bl ?lv st2)"
    unfolding c .
  let ?m1 = "toy_model [1]"
  let ?x1 = "[[[1]], [[3 :: real]]]"
  let ?lv1 = "\<lparr>cur_L = 0, f_hat = [[[0]]], next_token_map = ?x1, token_hub = [], logits_hub = []\<rparr>"
  have lg1: "get_logits ?m1 ?x1 ?cond = [[[1, 1]], [[13, 1]]]"
    by (simp add: toy_defs)
  have k1: "num_stages_minus_1 ?m1 = int (length (patch_nums ?m1)) - 1"
    by (simp add: toy_sel)
  have k2: "forward_blocks ?m1 (next_token_map ?lv1) ?cond None (toy_state 5 7) = (?x1, toy_state 5 7)"
    by (simp add: toy_defs)
  have k3: "length (get_logits ?m1 ?x1 ?cond) = 2 * 1"
    by (simp add: lg1)
  have k4: "list_all2 (list_all2 (\<lambda>c u. length c = length u))
              (take 1 (get_logits ?m1 ?x1 ?cond)) (drop 1 (get_logits ?m1 ?x1 ?cond))"
    by (simp add: lg1)
  have S1: "length (patch_nums ?m1) = 1"
    by (simp add: toy_sel)
  from cfg_combination [OF k1 k2 k3 k4, where si = 0 and cfg = "3 / 2" and top_k = "Scalar 0"
         and top_p = 0 and ms = False and r = SelfRng and lvl_pos = "[[0]]" and pn = 1,
         THEN conjunct2, THEN conjunct1, THEN mp, OF S1]
  have z: "infer_cfg_body ?m1 1 (3 / 2) (Scalar 0) 0 False SelfRng ?cond ?cond [[0]] 0 1 ?lv1 (toy_state 5 7) =
           (Inl ZeroDivisionError, toy_state 5 7)" .
  from body' len g0 g1 z show ?thesis
    by blast
qed

section \<open>Seeded runs\<close>

text \<open>
  With \<^verbatim>\<open>g_seed\<close> given, \<^verbatim>\<open>self.rng\<close> is reseeded and handed to every sampling call, so
  the process-wide default generator is neither read nor written: changing it before the
  call changes nothing but its own value after the call.
\<close>

lemma draw_self_frame:
  "draw SelfRng f (st\<lparr>default_rng := d\<rparr>) = apsnd (default_rng_update (\<lambda>_. d)) (draw SelfRng f st)"
  by (simp add: draw_def split: prod.splits)

lemma forward_blocks_frame:
  "forward_blocks m x c ab (st\<lparr>default_rng := d\<rparr>) =
     apsnd (default_rng_update (\<lambda>_. d)) (forward_blocks m x c ab st)"
  by (simp add: forward_blocks_def split: prod.splits)

lemma sample_idx_frame:
  "sample_idx m SelfRng lg k p tp (st\<lparr>default_rng := d\<rparr>) =
     apsnd (default_rng_update (\<lambda>_. d)) (sample_idx m SelfRng lg k p tp st)"
  by (simp add: sample_idx_def draw_self_frame split: prod.splits)

lemma make_h_frame:
  "make_h m SelfRng ms ratio lg idx (st\<lparr>default_rng := d\<rparr>) =
     apsnd (default_rng_update (\<lambda>_. d)) (make_h m SelfRng ms ratio lg idx st)"
  by (simp add: make_h_def draw_self_frame Let_def split: prod.splits)

lemma infer_cfg_body_frame:
  "infer_cfg_body m B cfg top_k top_p ms SelfRng cond_BD gss lp si pn lv (st\<lparr>default_rng := d\<rparr>) =
     apsnd (default_rng_update (\<lambda>_. d))
       (infer_cfg_body m B cfg top_k top_p ms SelfRng cond_BD gss lp si pn lv st)"
  unfolding infer_cfg_body_def
  by (simp add: forward_blocks_frame sample_idx_frame make_h_frame Let_def
           split: sum.splits prod.splits)

lemma for_enumerate_frame:
  assumes "\<And>si pn lv st. body si pn lv (st\<lparr>default_rng := d\<rparr>) =
             apsnd (default_rng_update (\<lambda>_. d)) (body si pn lv st)"
  shows "for_enumerate body si pns lv (st\<lparr>default_rng := d\<rparr>) =
           apsnd (default_rng_update (\<lambda>_. d)) (for_enumerate body si pns lv st)"
proof (induction pns arbitrary: si lv st)
  case Nil
  show ?case by simp
next
  case (Cons pn pns)
  show ?case
  proof (cases "body si pn lv st")
    case (Pair r s)
    then show ?thesis
      using Cons.IH by (cases r) (auto simp: assms split: ctl.splits)
  qed
qed


lemma set_kv_caching_frame:
  "set_kv_caching e (st\<lparr>default_rng := d\<rparr>) = (set_kv_caching e st)\<lparr>default_rng := d\<rparr>"
  by (simp add: set_kv_caching_def)

lemma resolve_label_frame:
  "resolve_label m B lab SelfRng (st\<lparr>default_rng := d\<rparr>) =
     apsnd (default_rng_update (\<lambda>_. d)) (resolve_label m B lab SelfRng st)"
  by (cases lab) (simp_all add: resolve_label_def draw_self_frame)

lemma infer_cfg_loop_frame:
  "for_enumerate (infer_cfg_body m B cfg top_k top_p ms SelfRng cond_BD gss lp) si pns lv
       (st\<lparr>default_rng := d\<rparr>) =
     apsnd (default_rng_update (\<lambda>_. d))
       (for_enumerate (infer_cfg_body m B cfg top_k top_p ms SelfRng cond_BD gss lp) si pns lv st)"
  by (rule for_enumerate_frame) (rule infer_cfg_body_frame)

lemma infer_cfg_default_rng_frame:
  "autoregressive_infer_cfg m B lab (Some g) cfg top_k top_p ms (st\<lparr>default_rng := d\<rparr>) =
     apsnd (default_rng_update (\<lambda>_. d)) (autoregressive_infer_cfg m B lab (Some g) cfg top_k top_p ms st)"
proof -
  obtain labels st1 where rl: "resolve_label m B lab SelfRng (st\<lparr>rng := manual_seed m g\<rparr>) = (labels, st1)"
    by fastforce
  have sw: "st\<lparr>default_rng := d, rng := manual_seed m g\<rparr> = st\<lparr>rng := manual_seed m g, default_rng := d\<rparr>"
    by simp
  have rl': "resolve_label m B lab SelfRng (st\<lparr>default_rng := d, rng := manual_seed m g\<rparr>) =
               (labels, st1\<lparr>default_rng := d\<rparr>)"
    unfolding sw resolve_label_frame by (simp add: rl)
  show ?thesis
  proof (cases "py_index (patch_nums m) (- 1)")
    case (Inl e)
    then show ?thesis
      by (simp add: autoregressive_infer_cfg_def seed_generator_def rl rl')
  next
    case (Inr pl)
    let ?body = "infer_cfg_body m B cfg top_k top_p ms SelfRng (class_cond m labels)
                   (shared_ada_lin m (class_cond m labels)) (lvl_pos_of m)"
    let ?lv = "\<lparr>cur_L = 0, f_hat = zeros B (Cvae m) (nat (pl * pl)),
               next_token_map = first_token_map m (class_cond m labels) (lvl_pos_of m),
               token_hub = [], logits_hub = []\<rparr>"
    obtain r st3 where loop: "for_enumerate ?body 0 (patch_nums m) ?lv (set_kv_caching True st1) = (r, st3)"
      by fastforce
    have loop': "for_enumerate ?body 0 (patch_nums m) ?lv ((set_kv_caching True st1)\<lparr>default_rng := d\<rparr>) =
                   (r, st3\<lparr>default_rng := d\<rparr>)"
      unfolding infer_cfg_loop_frame by (simp add: loop)
    show ?thesis
      by (cases r)
         (simp_all add: autoregressive_infer_cfg_def seed_generator_def rl rl' Inr Let_def loop loop'
            set_kv_caching_frame)
  qed
qed

lemma infer_cfg_rng_overwritten:
  "autoregressive_infer_cfg m B lab (Some g) cfg top_k top_p ms (st\<lparr>rng := x\<rparr>) =
     autoregressive_infer_cfg m B lab (Some g) cfg top_k top_p ms st"
  unfolding autoregressive_infer_cfg_def seed_generator_def by simp

text \<open>
  C7. Two runs of \<^verbatim>\<open>autoregressive_infer_cfg\<close> with the same seed and the same
  configuration, started with the blocks in the same state but with the two generators in
  any states, return the same result (image or raised error), and leave the blocks and
  the instance generator in the same state.
\<close>

theorem seeded_runs_agree:
  assumes "blocks st1 = blocks st2"
  shows "fst (autoregressive_infer_cfg m B lab (Some g) cfg top_k top_p ms st1) =
           fst (autoregressive_infer_cfg m B lab (Some g) cfg top_k top_p ms st2)
       \<and> blocks (snd (autoregressive_infer_cfg m B lab (Some g) cfg top_k top_p ms st1)) =
           blocks (snd (autoregressive_infer_cfg m B lab (Some g) cfg top_k top_p ms st2))
       \<and> rng (snd (autoregressive_infer_cfg m B lab (Some g) cfg top_k top_p ms st1)) =
           rng (snd (autoregressive_infer_cfg m B lab (Some g) cfg top_k top_p ms st2))"
proof -
  have "st2 = st1\<lparr>rng := rng st2, default_rng := default_rng st2\<rparr>"
    using assms by simp
  then have "autoregressive_infer_cfg m B lab (Some g) cfg top_k top_p ms st2 =
        apsnd (default_rng_update (\<lambda>_. default_rng st2))
          (autoregressive_infer_cfg m B lab (Some g) cfg top_k top_p ms st1)"
    using infer_cfg_default_rng_frame [where st = "st1\<lparr>rng := rng st2\<rparr>" and d = "default_rng st2"]
    by (simp add: infer_cfg_rng_overwritten)
  then show ?thesis
    by simp
qed

lemma toy_seeded_run:
  "fst (autoregressive_infer_cfg (toy_model [1, 2, 3]) 1 LabelNone (Some 3) (3 / 2) (Scalar 0) 0 False
          (toy_state 5 7)) =
     Inr [[[5 / 2, 5 / 2, 5 / 2, 5 / 2, 5 / 2, 5 / 2, 5 / 2, 5 / 2, 5 / 2]]]"
  by (simp add: autoregressive_infer_cfg_def infer_cfg_body_def toy_defs)

lemma toy_unseeded_runs_differ:
  "fst (autoregressive_infer_cfg (toy_model [1, 2, 3]) 1 LabelNone None (3 / 2) (Scalar 0) 0 False
          (toy_state 5 7)) \<noteq>
   fst (autoregressive_infer_cfg (toy_model [1, 2, 3]) 1 LabelNone None (3 / 2) (Scalar 0) 0 False
          (toy_state 5 8))"
  by (simp add: autoregressive_infer_cfg_def infer_cfg_body_def toy_defs)

theorem seeded_runs_agree_witness:
  "blocks (toy_state 5 7) = blocks (toy_state 6 8)
   \<and> fst (autoregressive_infer_cfg (toy_model [1, 2, 3]) 1 LabelNone (Some 3) (3 / 2) (Scalar 0) 0 False
            (toy_state 6 8)) =
       Inr [[[5 / 2, 5 / 2, 5 / 2, 5 / 2, 5 / 2, 5 / 2, 5 / 2, 5 / 2, 5 / 2]]]"
proof -
  have b: "blocks (toy_state 5 7) = blocks (toy_state 6 8)"
    by (simp add: toy_state_def)
  from seeded_runs_agree [OF b, of "toy_model [1, 2, 3]" 1 LabelNone 3 "3 / 2" "Scalar 0" 0 False]
  have "fst (autoregressive_infer_cfg (toy_model [1, 2, 3]) 1 LabelNone (Some 3) (3 / 2) (Scalar 0) 0 False
               (toy_state 6 8)) =
        fst (autoregressive_infer_cfg (toy_model [1, 2, 3]) 1 LabelNone (Some 3) (3 / 2) (Scalar 0) 0 False
               (toy_state 5 7))"
    by simp
  with b toy_seeded_run show ?thesis
    by simp
qed

section \<open>The draft calls and the cache\<close>

lemma set_kv_caching_False_clean:
  "list_all (\<lambda>a. \<not> caching a \<and> cached a = []) (blocks (set_kv_caching False st))"
  by (simp add: set_kv_caching_def kv_caching_def list_all_iff)

lemma cfg_draft_return_state:
  assumes "autoregressive_infer_cfg_draft m B lab g_seed cfg top_k top_p ms exit_num temp st = (Inr res, st')"
  shows "\<exists>st3. st' = set_kv_caching False st3"
  using assms unfolding autoregressive_infer_cfg_draft_def
  by (auto simp: Let_def split: prod.splits sum.splits)

lemma inpaint_draft_return_state:
  assumes "autoregressive_inpaint_draft m B lab g_seed cfg top_k top_p ms exit_num f_hats mask_in mask_out
             temp st = (Inr res, st')"
  shows "\<exists>st3. st' = set_kv_caching False st3"
  using assms unfolding autoregressive_inpaint_draft_def
  by (auto simp: Let_def split: prod.splits sum.splits)

text \<open>
  C3, as the code has it. Both draft calls run
  \<^verbatim>\<open>for b in self.blocks: b.attn.kv_caching(False)\<close> before they return: whenever a draft
  call returns its canvas and hubs, every block has caching disabled and nothing cached.
\<close>

theorem draft_returns_with_caching_disabled:
  "(\<forall>res st'. autoregressive_infer_cfg_draft m B lab g_seed cfg top_k top_p ms exit_num temp st = (Inr res, st')
       \<longrightarrow> list_all (\<lambda>a. \<not> caching a \<and> cached a = []) (blocks st'))
   \<and> (\<forall>res st'. autoregressive_inpaint_draft m B lab g_seed cfg top_k top_p ms exit_num f_hats mask_in mask_out
                    temp st = (Inr res, st')
       \<longrightarrow> list_all (\<lambda>a. \<not> caching a \<and> cached a = []) (blocks st'))"
proof (intro conjI allI impI)
  fix res st'
  assume "autoregressive_infer_cfg_draft m B lab g_seed cfg top_k top_p ms exit_num temp st = (Inr res, st')"
  then obtain st3 where "st' = set_kv_caching False st3"
    using cfg_draft_return_state by blast
  then show "list_all (\<lambda>a. \<not> caching a \<and> cached a = []) (blocks st')"
    by (simp add: set_kv_caching_False_clean)
next
  fix res st'
  assume "autoregressive_inpaint_draft m B lab g_seed cfg top_k top_p ms exit_num f_hats mask_in mask_out
            temp st = (Inr res, st')"
  then obtain st3 where "st' = set_kv_caching False st3"
    using inpaint_draft_return_state by blast
  then show "list_all (\<lambda>a. \<not> caching a \<and> cached a = []) (blocks st')"
    by (simp add: set_kv_caching_False_clean)
qed

lemma toy_inpaint_draft_returns:
  "\<exists>res st'. autoregressive_inpaint_draft (toy_model [1, 2, 3]) 1 (LabelInt 0) (Some 0) (3 / 2)
       (PerScale [0, 0, 0]) 0 False 2 [] [] [] (PerScale [1, 1, 1]) (toy_state 5 7) = (Inr res, st')
     \<and> blocks st' \<noteq> []"
  by (simp add: autoregressive_inpaint_draft_def draft_body_def toy_defs)

theorem draft_returns_with_caching_disabled_witness:
  "\<exists>res st'. autoregressive_inpaint_draft (toy_model [1, 2, 3]) 1 (LabelInt 0) (Some 0) (3 / 2)
       (PerScale [0, 0, 0]) 0 False 2 [] [] [] (PerScale [1, 1, 1]) (toy_state 5 7) = (Inr res, st')
     \<and> blocks st' \<noteq> []
     \<and> list_all (\<lambda>a. \<not> caching a \<and> cached a = []) (blocks st')"
proof -
  from toy_inpaint_draft_returns obtain res st' where
    r: "autoregressive_inpaint_draft (toy_model [1, 2, 3]) 1 (LabelInt 0) (Some 0) (3 / 2)
          (PerScale [0, 0, 0]) 0 False 2 [] [] [] (PerScale [1, 1, 1]) (toy_state 5 7) = (Inr res, st')"
    and ne: "blocks st' \<noteq> []"
    by blast
  from draft_returns_with_caching_disabled [THEN conjunct2, rule_format, OF r]
  have "list_all (\<lambda>a. \<not> caching a \<and> cached a = []) (blocks st')" .
  with r ne show ?thesis
    by blast
qed

text \<open>
  The claim as stated fails: the draft of the first two scales of the schedule
  \<open>(1, 2, 3)\<close> returns its canvas and token hub, and at that moment both blocks have
  caching disabled and an empty cache.
\<close>

theorem draft_caching_counterexample:
  "\<exists>res st'. autoregressive_infer_cfg_draft (toy_model [1, 2, 3]) 1 (LabelInt 0) (Some 0) (3 / 2)
       (PerScale [0, 0, 0]) 0 False 2 (PerScale [1, 1, 1]) (toy_state 5 7) = (Inr res, st')
     \<and> blocks st' = [\<lparr>caching = False, cached = []\<rparr>, \<lparr>caching = False, cached = []\<rparr>]"
  by (simp add: autoregressive_infer_cfg_draft_def draft_body_def toy_defs)

section \<open>A failing run leaves the cache enabled\<close>

text \<open>
  C1, evaluated. \<^verbatim>\<open>autoregressive_infer_cfg_draft\<close> on the schedule \<open>(1, 2, 3)\<close> with
  \<open>exit_num = 3\<close> never meets \<^verbatim>\<open>si == exit_num\<close>; at the last scale
  \<^verbatim>\<open>self.patch_nums[si+1]\<close> raises \<^verbatim>\<open>IndexError\<close>, the statement that disables caching
  is not reached, and the call ends with caching enabled and three steps cached in
  every block.
\<close>

theorem draft_error_leaves_caching_enabled:
  "\<exists>st'. autoregressive_infer_cfg_draft (toy_model [1, 2, 3]) 1 (LabelInt 0) (Some 0) (3 / 2)
       (PerScale [0, 0, 0]) 0 False 3 (PerScale [1, 1, 1]) (toy_state 5 7) = (Inl IndexError, st')
     \<and> list_all caching (blocks st')
     \<and> list_all (\<lambda>a. length (cached a) = 3) (blocks st')
     \<and> length (blocks st') = 2"
  by (simp add: autoregressive_infer_cfg_draft_def draft_body_def toy_defs)

section \<open>compute\_nll: dropping the label\<close>

lemma compute_nll_depends:
  assumes "blocks st1 = blocks st2"
    and "label_B_masked m (fst (rand m (default_rng st1) (length p))) l =
         label_B_masked m (fst (rand m (default_rng st2) (length p))) l"
  shows "fst (compute_nll m p t l s st1) = fst (compute_nll m p t l s st2)"
  using assms
  by (simp add: compute_nll_def draw_def forward_blocks_def Let_def split_beta split: sum.splits)

lemma label_B_masked_keeps:
  assumes "length u = length l" and "unit_draw u" and "cond_drop_rate m \<le> 0"
  shows "label_B_masked m u l = l"
  using assms
  by (induction u l rule: list_induct2) (auto simp: label_B_masked_def unit_draw_def)

lemma label_B_masked_drops:
  assumes "length u = length l" and "unit_draw u" and "1 \<le> cond_drop_rate m"
  shows "label_B_masked m u l = replicate (length l) (num_classes m)"
  using assms
  by (induction u l rule: list_induct2) (auto simp: label_B_masked_def unit_draw_def)

lemma label_B_masked_replicate_low:
  assumes "x < cond_drop_rate m"
  shows "label_B_masked m (replicate (length l) x) l = replicate (length l) (num_classes m)"
  using assms by (induction l) (simp_all add: label_B_masked_def)

lemma label_B_masked_replicate_high:
  assumes "\<not> x < cond_drop_rate m"
  shows "label_B_masked m (replicate (length l) x) l = l"
  using assms by (induction l) (simp_all add: label_B_masked_def)

lemma label_B_masked_differ:
  assumes "0 < cond_drop_rate m" and "cond_drop_rate m < 1"
    and "l \<noteq> replicate (length l) (num_classes m)"
  shows "\<exists>u1 u2. unit_draw u1 \<and> unit_draw u2 \<and> length u1 = length l \<and> length u2 = length l
           \<and> label_B_masked m u1 l \<noteq> label_B_masked m u2 l"
proof -
  let ?u1 = "replicate (length l) (0 :: real)"
  let ?u2 = "replicate (length l) (cond_drop_rate m)"
  have "unit_draw ?u1"
    by (simp add: unit_draw_def list_all_iff)
  moreover have "unit_draw ?u2"
    using assms(1,2) by (simp add: unit_draw_def list_all_iff)
  moreover have "label_B_masked m ?u1 l = replicate (length l) (num_classes m)"
    using assms(1) by (rule label_B_masked_replicate_low)
  moreover have "label_B_masked m ?u2 l = l"
    by (rule label_B_masked_replicate_high) simp
  ultimately show ?thesis
    using assms(3) by (intro exI [of _ ?u1] exI [of _ ?u2]) simp
qed

text \<open>
  C10, as the code has it. \<^verbatim>\<open>compute_nll\<close> draws \<^verbatim>\<open>torch.rand(B)\<close> from the default
  generator, which no argument seeds, and replaces label \<open>i\<close> by the sentinel class when
  the \<open>i\<close>-th draw is below \<open>cond_drop_rate\<close>; the result depends on the generator only
  through the labels so masked. With \<open>cond_drop_rate = 0\<close> no label is replaced and the
  result does not depend on the generator. With \<open>0 < cond_drop_rate < 1\<close> and a label that
  is not the sentinel already, two draws give different conditioning labels. With
  \<open>cond_drop_rate \<ge> 1\<close> every label is replaced, and the result again does not depend on
  the generator.
\<close>

theorem compute_nll_label_dropping:
  assumes "rand_ok m" and "length label_B = length prefix_tokens" and "blocks st1 = blocks st2"
  shows "(cond_drop_rate m = 0 \<longrightarrow>
            label_B_masked m (fst (rand m (default_rng st1) (length prefix_tokens))) label_B = label_B
          \<and> fst (compute_nll m prefix_tokens target_tokens label_B scale_idx st1) =
              fst (compute_nll m prefix_tokens target_tokens label_B scale_idx st2))
       \<and> (0 < cond_drop_rate m \<and> cond_drop_rate m < 1
            \<and> label_B \<noteq> replicate (length label_B) (num_classes m) \<longrightarrow>
            (\<exists>u1 u2. unit_draw u1 \<and> unit_draw u2 \<and> length u1 = length label_B \<and> length u2 = length label_B
               \<and> label_B_masked m u1 label_B \<noteq> label_B_masked m u2 label_B))
       \<and> (1 \<le> cond_drop_rate m \<longrightarrow>
            label_B_masked m (fst (rand m (default_rng st1) (length prefix_tokens))) label_B =
              replicate (length label_B) (num_classes m)
          \<and> fst (compute_nll m prefix_tokens target_tokens label_B scale_idx st1) =
              fst (compute_nll m prefix_tokens target_tokens label_B scale_idx st2))"
proof -
  let ?u = "\<lambda>st. fst (rand m (default_rng st) (length prefix_tokens))"
  have u: "unit_draw (?u st) \<and> length (?u st) = length label_B" for st
    using assms(1,2) by (simp add: rand_ok_def)
  have zero: "label_B_masked m (?u st) label_B = label_B" if "cond_drop_rate m = 0" for st
    using u [of st] that by (intro label_B_masked_keeps) simp_all
  have one: "label_B_masked m (?u st) label_B = replicate (length label_B) (num_classes m)"
    if "1 \<le> cond_drop_rate m" for st
    using u [of st] that by (intro label_B_masked_drops) simp_all
  have a: "cond_drop_rate m = 0 \<longrightarrow>
            label_B_masked m (?u st1) label_B = label_B
          \<and> fst (compute_nll m prefix_tokens target_tokens label_B scale_idx st1) =
              fst (compute_nll m prefix_tokens target_tokens label_B scale_idx st2)"
  proof (intro impI conjI)
    assume z: "cond_drop_rate m = 0"
    show "label_B_masked m (?u st1) label_B = label_B"
      by (rule zero [OF z])
    have "label_B_masked m (?u st1) label_B = label_B_masked m (?u st2) label_B"
      by (simp only: zero [OF z])
    then show "fst (compute_nll m prefix_tokens target_tokens label_B scale_idx st1) =
               fst (compute_nll m prefix_tokens target_tokens label_B scale_idx st2)"
      by (rule compute_nll_depends [OF assms(3)])
  qed
  have c: "1 \<le> cond_drop_rate m \<longrightarrow>
            label_B_masked m (?u st1) label_B = replicate (length label_B) (num_classes m)
          \<and> fst (compute_nll m prefix_tokens target_tokens label_B scale_idx st1) =
              fst (compute_nll m prefix_tokens target_tokens label_B scale_idx st2)"
  proof (intro impI conjI)
    assume o: "1 \<le> cond_drop_rate m"
    show "label_B_masked m (?u st1) label_B = replicate (length label_B) (num_classes m)"
      by (rule one [OF o])
    have "label_B_masked m (?u st1) label_B = label_B_masked m (?u st2) label_B"
      by (simp only: one [OF o])
    then show "fst (compute_nll m prefix_tokens target_tokens label_B scale_idx st1) =
               fst (compute_nll m prefix_tokens target_tokens label_B scale_idx st2)"
      by (rule compute_nll_depends [OF assms(3)])
  qed
  from a c label_B_masked_differ [of m label_B] show ?thesis
    by blast
qed

lemmas nll_defs = compute_nll_def nll_offset_def label_B_masked_def shape1_def
  gather_target_def mean_def slice_pos_def log_softmax_def

lemma toy_nll_dropped:
  "fst (compute_nll (toy_model [1, 1, 1]) [[[1]]] [[1]] [3] 1 (toy_state 0 0)) =
     Inr (ln (exp 13 + exp 1) - 1)"
  by (simp add: nll_defs toy_defs cong: let_weak_cong old.prod.case_cong_weak)

lemma toy_nll_kept:
  "fst (compute_nll (toy_model [1, 1, 1]) [[[1]]] [[1]] [3] 1 (toy_state 0 1)) =
     Inr (ln (exp 6 + exp 1) - 1)"
  by (simp add: nll_defs toy_defs cong: let_weak_cong old.prod.case_cong_weak)

lemma ln_exp_sum_differ: "ln (exp 13 + exp 1) \<noteq> ln (exp 6 + exp (1 :: real))"
proof -
  have "exp (6 :: real) < exp 13"
    by simp
  then have "exp 6 + exp (1 :: real) < exp 13 + exp 1"
    by simp
  moreover have "0 < exp 6 + exp (1 :: real)"
    by (simp add: add_pos_pos)
  ultimately have "ln (exp 6 + exp (1 :: real)) < ln (exp 13 + exp 1)"
    by (simp only: ln_less_cancel_iff add_pos_pos exp_gt_zero)
  then show ?thesis
    by simp
qed

lemma toy_rand_ok: "rand_ok (toy_model pns)"
  by (simp add: rand_ok_def unit_draw_def toy_sel list_all_iff)

theorem compute_nll_label_dropping_witness:
  "rand_ok (toy_model [1, 1, 1])
   \<and> (\<exists>u1 u2. unit_draw u1 \<and> unit_draw u2 \<and> length u1 = 1 \<and> length u2 = 1
         \<and> label_B_masked (toy_model [1, 1, 1]) u1 [3] \<noteq> label_B_masked (toy_model [1, 1, 1]) u2 [3])
   \<and> fst (compute_nll (toy_model [1, 1, 1]) [[[1]]] [[1]] [3] 1 (toy_state 0 0)) \<noteq>
       fst (compute_nll (toy_model [1, 1, 1]) [[[1]]] [[1]] [3] 1 (toy_state 0 1))"
proof -
  have h2: "length [3 :: int] = length [[[1 :: real]]]"
    by simp
  have h3: "blocks (toy_state 0 0) = blocks (toy_state 0 1)"
    by (simp add: toy_state_def)
  have r: "0 < cond_drop_rate (toy_model [1, 1, 1]) \<and> cond_drop_rate (toy_model [1, 1, 1]) < 1
         \<and> [3] \<noteq> replicate (length [3 :: int]) (num_classes (toy_model [1, 1, 1]))"
    by (simp add: toy_sel)
  from compute_nll_label_dropping [OF toy_rand_ok h2 h3, THEN conjunct2, THEN conjunct1, rule_format, OF r]
  have "\<exists>u1 u2. unit_draw u1 \<and> unit_draw u2 \<and> length u1 = 1 \<and> length u2 = 1
         \<and> label_B_masked (toy_model [1, 1, 1]) u1 [3] \<noteq> label_B_masked (toy_model [1, 1, 1]) u2 [3]"
    by simp
  moreover have "fst (compute_nll (toy_model [1, 1, 1]) [[[1]]] [[1]] [3] 1 (toy_state 0 0)) \<noteq>
       fst (compute_nll (toy_model [1, 1, 1]) [[[1]]] [[1]] [3] 1 (toy_state 0 1))"
    unfolding toy_nll_dropped toy_nll_kept using ln_exp_sum_differ by simp
  ultimately show ?thesis
    using toy_rand_ok by blast
qed

text \<open>
  The claim as stated fails at \<open>cond_drop_rate = 1\<close>: every draw of \<open>[0, 1)\<close> is below
  the rate, every label is replaced by the sentinel, and no two generator states give
  different results.
\<close>

theorem compute_nll_rate_one_counterexample:
  "0 < cond_drop_rate ((toy_model [1, 1, 1])\<lparr>cond_drop_rate := 1\<rparr>)
   \<and> rand_ok ((toy_model [1, 1, 1])\<lparr>cond_drop_rate := 1\<rparr>)
   \<and> \<not> (\<exists>st1 st2. blocks st1 = blocks st2
           \<and> fst (compute_nll ((toy_model [1, 1, 1])\<lparr>cond_drop_rate := 1\<rparr>) [[[1]]] [[1]] [3] 1 st1) \<noteq>
               fst (compute_nll ((toy_model [1, 1, 1])\<lparr>cond_drop_rate := 1\<rparr>) [[[1]]] [[1]] [3] 1 st2))"
proof -
  let ?m = "(toy_model [1, 1, 1])\<lparr>cond_drop_rate := 1\<rparr>"
  have ok: "rand_ok ?m"
    using toy_rand_ok [of "[1, 1, 1]"] by (simp add: rand_ok_def)
  have same: "fst (compute_nll ?m [[[1]]] [[1]] [3] 1 st1) = fst (compute_nll ?m [[[1]]] [[1]] [3] 1 st2)"
    if b: "blocks st1 = blocks st2" for st1 st2
  proof (rule compute_nll_depends [OF b])
    have u: "unit_draw (fst (rand ?m (default_rng st) (length [[[1 :: real]]])))
             \<and> length (fst (rand ?m (default_rng st) (length [[[1 :: real]]]))) = length [3 :: int]" for st
      using ok by (simp add: rand_ok_def)
    have eq: "label_B_masked ?m (fst (rand ?m (default_rng st) (length [[[1 :: real]]]))) [3] =
            replicate (length [3 :: int]) (num_classes ?m)" for st
      using u [of st] by (intro label_B_masked_drops) simp_all
    show "label_B_masked ?m (fst (rand ?m (default_rng st1) (length [[[1 :: real]]]))) [3] =
          label_B_masked ?m (fst (rand ?m (default_rng st2) (length [[[1 :: real]]]))) [3]"
      by (simp only: eq)
  qed
  have "0 < cond_drop_rate ?m"
    by simp
  with ok same show ?thesis
    by blast
qed

section \<open>The refine pass\<close>



lemma scale_offset_nonneg: "0 \<le> scale_offset pns s"
  unfolding scale_offset_def by (rule sum_list_nonneg) auto


























end
